theory Spec2Isabelle
  imports Main
begin

section \<open>Python strings\<close>

text \<open>
  A Python \<open>str\<close> is modelled as a \<open>string\<close>: a list of characters, each character
  standing for the code point with the same number (code points 0 to 255, that is
  ASCII and Latin-1). On this range \<open>str.lower\<close> stays inside the range, and
  \<open>str.isspace\<close> holds for the twelve code points listed in \<open>isspace\<close>.
\<close>

definition char_lower :: "char \<Rightarrow> char" where
  "char_lower c =
     (let n = (of_char c :: nat)
      in if (65 \<le> n \<and> n \<le> 90) \<or> (192 \<le> n \<and> n \<le> 222 \<and> n \<noteq> 215)
         then char_of (n + 32) else c)"

definition lower :: "string \<Rightarrow> string" where
  "lower s = map char_lower s"

definition isspace :: "char \<Rightarrow> bool" where
  "isspace c = ((of_char c :: nat) \<in> {9, 10, 11, 12, 13, 28, 29, 30, 31, 32, 133, 160})"

text \<open>\<open>s.strip()\<close>: drop the white space at both ends.\<close>

definition lstrip :: "string \<Rightarrow> string" where
  "lstrip s = dropWhile isspace s"

definition rstrip :: "string \<Rightarrow> string" where
  "rstrip s = rev (dropWhile isspace (rev s))"

definition strip :: "string \<Rightarrow> string" where
  "strip s = rstrip (lstrip s)"

text \<open>
  \<open>s.split(sep)\<close> for a one-character separator: every occurrence of the separator
  ends a field, so the result has one more field than there are separators, and
  \<open>''.split(',')\<close> is \<open>['']\<close>.
\<close>

fun split :: "char \<Rightarrow> string \<Rightarrow> string list" where
  "split sep [] = [[]]"
| "split sep (c # cs) =
     (if c = sep then [] # split sep cs
      else (case split sep cs of
              [] \<Rightarrow> [[c]]
            | w # ws \<Rightarrow> (c # w) # ws))"

text \<open>\<open>sep.join(xs)\<close>.\<close>

fun join :: "string \<Rightarrow> string list \<Rightarrow> string" where
  "join sep [] = []"
| "join sep [x] = x"
| "join sep (x # y # ys) = x @ sep @ join sep (y # ys)"

text \<open>
  \<open>s.rsplit(sep, 1)\<close> for a one-character separator: split once, at the last
  occurrence of the separator; a string without the separator comes back whole.
\<close>

definition rsplit1 :: "char \<Rightarrow> string \<Rightarrow> string list" where
  "rsplit1 sep s =
     (if sep \<in> set s
      then [rev (tl (dropWhile (\<lambda>c. c \<noteq> sep) (rev s))),
            rev (takeWhile (\<lambda>c. c \<noteq> sep) (rev s))]
      else [s])"

section \<open>Exceptions and results\<close>

text \<open>
  The handlers tell \<open>googleapiclient.errors.HttpError\<close> (which carries the host's raw
  payload \<open>e.content\<close>) from every other exception; \<open>exn_str\<close> is what \<open>str(e)\<close> gives.
  A computation that may raise returns \<open>exn + 'a\<close>, with \<open>Inl\<close> for the exception.
\<close>

datatype exn = HttpError (exn_content: string) (exn_str: string) | OtherError (exn_str: string)

text \<open>\<open>xs[i]\<close> on a list: \<open>IndexError\<close> out of range.\<close>

definition index :: "'a list \<Rightarrow> nat \<Rightarrow> exn + 'a" where
  "index xs i = (if i < length xs then Inr (xs ! i) else Inl (OtherError ''list index out of range''))"

section \<open>File extension allow-list (routes/upload.py)\<close>

definition ALLOWED_EXTENSIONS :: "string set" where
  "ALLOWED_EXTENSIONS = {''mp4'', ''avi'', ''mov'', ''wmv'', ''flv'', ''webm'', ''mkv''}"

text \<open>
  \<open>'.' in filename and filename.rsplit('.', 1)[1].lower() in ALLOWED_EXTENSIONS\<close>;
  \<open>and\<close> evaluates its right operand only when the left one is true.
\<close>

definition allowed_file :: "string \<Rightarrow> exn + bool" where
  "allowed_file filename =
     (if CHR ''.'' \<in> set filename
      then (case index (rsplit1 CHR ''.'' filename) 1 of
              Inl e \<Rightarrow> Inl e
            | Inr ext \<Rightarrow> Inr (lower ext \<in> ALLOWED_EXTENSIONS))
      else Inr False)"

text \<open>Python truth value of an optional string: \<open>None\<close> and \<open>''\<close> are false.\<close>

definition truthy :: "string option \<Rightarrow> bool" where
  "truthy v = (case v of None \<Rightarrow> False | Some s \<Rightarrow> s \<noteq> [])"

text \<open>\<open>d.get(k, default)\<close> and \<open>d.get(k)\<close> on a dictionary kept as an association list.\<close>

definition get_default :: "(string \<times> 'v) list \<Rightarrow> string \<Rightarrow> 'v \<Rightarrow> 'v" where
  "get_default d k dflt = (case map_of d k of None \<Rightarrow> dflt | Some v \<Rightarrow> v)"

text \<open>\<open>str(n)\<close> for a non-negative integer.\<close>

definition digit_char :: "nat \<Rightarrow> char" where
  "digit_char d = char_of (48 + d)"

function str_nat :: "nat \<Rightarrow> string" where
  "str_nat n = (if n < 10 then [digit_char n] else str_nat (n div 10) @ [digit_char (n mod 10)])"
  by pat_completeness auto
termination
  by (relation "measure (\<lambda>n. n)") auto

text \<open>The apostrophe, as Python puts it around names in its messages.\<close>

definition apostrophe :: string where
  "apostrophe = [CHR 0x27]"

section \<open>JSON responses\<close>

text \<open>
  \<open>JRound2 a b\<close> stands for the floating-point number \<open>round(a / b, 2)\<close>, kept
  symbolic. A response is the dictionary handed to \<open>jsonify\<close>, keys in source order,
  and the HTTP status (200 when the handler returns no status).
\<close>

datatype json = JNull | JBool bool | JInt int | JStr string | JRound2 int int
  | JList "json list" | JObj "(string \<times> json) list"

record response =
  resp_body :: "(string \<times> json) list"
  resp_status :: nat

definition jsonify :: "(string \<times> json) list \<Rightarrow> nat \<Rightarrow> response" where
  "jsonify d code = \<lparr>resp_body = d, resp_status = code\<rparr>"

text \<open>The value a response carries under a key, if any.\<close>

definition field :: "response \<Rightarrow> string \<Rightarrow> json option" where
  "field r k = map_of (resp_body r) k"

section \<open>The world outside the handlers\<close>

text \<open>
  The handlers act on the file at \<open>TOKEN_FILE\<close>, on temporary directories, on the
  session and on the video host. The state keeps the text of the token file (\<open>None\<close>
  when there is no such file), each existing temporary directory with the names of the
  files in it, the session dictionary, and the calls made to the host so far. File
  operations fail exactly when their target is missing (or, for \<open>rmdir\<close>, not empty):
  permissions, quotas and other processes are outside the model.
\<close>

record video_body =
  snippet_title :: string
  snippet_description :: string
  snippet_tags :: "string list"
  snippet_categoryId :: string
  status_privacyStatus :: string

record list_request =
  part :: string
  mine :: bool
  maxResults :: nat
  pageToken :: "string option"

datatype host_call =
    VideosInsert video_body string string
  | NextChunk
  | PlaylistItemsInsert string string
  | PlaylistsList list_request

record world =
  token_file :: "string option"
  tmp :: "string \<rightharpoonup> string set"
  session :: "(string \<times> string) list"
  calls :: "host_call list"

definition mkdtemp :: "string \<Rightarrow> world \<Rightarrow> exn + (string \<times> world)" where
  "mkdtemp name w =
     (if tmp w name \<noteq> None then Inl (OtherError ''FileExistsError'')
      else Inr (name, w\<lparr>tmp := (tmp w)(name \<mapsto> {})\<rparr>))"

text \<open>\<open>file.save(os.path.join(dir, name))\<close>: the name must be a plain file name.\<close>

definition file_save :: "string \<Rightarrow> string \<Rightarrow> world \<Rightarrow> exn + world" where
  "file_save dir name w =
     (case tmp w dir of
        None \<Rightarrow> Inl (OtherError ''FileNotFoundError'')
      | Some names \<Rightarrow>
          if name = [] \<or> name = ''.'' \<or> name = ''..'' then Inl (OtherError ''IsADirectoryError'')
          else if CHR ''/'' \<in> set name then Inl (OtherError ''FileNotFoundError'')
          else Inr (w\<lparr>tmp := (tmp w)(dir \<mapsto> insert name names)\<rparr>))"

definition os_remove :: "string \<Rightarrow> string \<Rightarrow> world \<Rightarrow> exn + world" where
  "os_remove dir name w =
     (case tmp w dir of
        None \<Rightarrow> Inl (OtherError ''FileNotFoundError'')
      | Some names \<Rightarrow>
          if name \<in> names then Inr (w\<lparr>tmp := (tmp w)(dir \<mapsto> names - {name})\<rparr>)
          else Inl (OtherError ''FileNotFoundError''))"

definition os_rmdir :: "string \<Rightarrow> world \<Rightarrow> exn + world" where
  "os_rmdir dir w =
     (case tmp w dir of
        None \<Rightarrow> Inl (OtherError ''FileNotFoundError'')
      | Some names \<Rightarrow>
          if names = {} then Inr (w\<lparr>tmp := (tmp w)(dir := None)\<rparr>)
          else Inl (OtherError ''OSError: directory not empty''))"

text \<open>\<open>os.remove(token_path)\<close>.\<close>

definition os_remove_token :: "world \<Rightarrow> exn + world" where
  "os_remove_token w =
     (if token_file w = None then Inl (OtherError ''FileNotFoundError'')
      else Inr (w\<lparr>token_file := None\<rparr>))"

section \<open>Credentials and the client factory (services/youtube\_service.py, app.py)\<close>

text \<open>
  What the handlers read of a \<open>google.oauth2.credentials.Credentials\<close> object. The
  library's \<open>valid\<close> property is \<open>token is not None and not expired\<close>. The library
  calls are parameters: parsing the token file's text, the refresh exchange (which
  gives the credentials as refreshed), serialising, and building the client.
\<close>

record credentials =
  token :: "string option"
  expired :: bool
  refresh_token :: "string option"

definition valid :: "credentials \<Rightarrow> bool" where
  "valid c = (token c \<noteq> None \<and> \<not> expired c)"

datatype youtube = Youtube credentials

record google =
  from_authorized_user_file :: "string \<Rightarrow> exn + credentials"
  refresh :: "credentials \<Rightarrow> exn + credentials"
  to_json :: "credentials \<Rightarrow> string"
  write_token :: "string \<Rightarrow> exn option"
  build :: "credentials \<Rightarrow> exn option"

text \<open>
  The statements of \<open>get_youtube_service\<close> after the credentials are loaded (the same in
  both files but for the handling of \<open>build\<close>): \<open>creds\<close> is \<open>None\<close> when there was no
  token file. The result is the world and what the block does: raise, or return a
  client or \<open>None\<close>.
\<close>

definition refresh_and_save ::
  "google \<Rightarrow> credentials \<Rightarrow> world \<Rightarrow> (exn + credentials) \<times> world" where
  "refresh_and_save g c w =
     (case refresh g c of
        Inl e \<Rightarrow> (Inl e, w)
      | Inr c' \<Rightarrow>
          (case write_token g (to_json g c') of
             Some e \<Rightarrow> (Inl e, w)
           | None \<Rightarrow> (Inr c', w\<lparr>token_file := Some (to_json g c')\<rparr>)))"

definition do_build :: "google \<Rightarrow> credentials \<Rightarrow> exn + youtube option" where
  "do_build g c = (case build g c of Some e \<Rightarrow> Inl e | None \<Rightarrow> Inr (Some (Youtube c)))"

definition service_body ::
  "google \<Rightarrow> world \<Rightarrow> (exn + youtube option) \<times> world" where
  "service_body g w =
     (case token_file w of
        None \<Rightarrow> (Inr None, w)
      | Some txt \<Rightarrow>
          (case from_authorized_user_file g txt of
             Inl e \<Rightarrow> (Inr None, w)
           | Inr creds \<Rightarrow>
               if \<not> valid creds then
                 (if expired creds \<and> truthy (refresh_token creds) then
                    (case refresh_and_save g creds w of
                       (Inl e, w') \<Rightarrow> (Inr None, w')
                     | (Inr creds', w') \<Rightarrow> (do_build g creds', w'))
                  else (Inr None, w))
               else (do_build g creds, w)))"

text \<open>services/youtube\_service.py: the whole body sits in \<open>try ... except Exception: return None\<close>.\<close>

definition get_youtube_service ::
  "google \<Rightarrow> world \<Rightarrow> (exn + youtube option) \<times> world" where
  "get_youtube_service g w =
     (case service_body g w of
        (Inl e, w') \<Rightarrow> (Inr None, w')
      | (Inr r, w') \<Rightarrow> (Inr r, w'))"

text \<open>app.py: only \<open>build\<close> is wrapped, \<open>except Exception: return None\<close>.\<close>

definition app_get_youtube_service ::
  "google \<Rightarrow> world \<Rightarrow> (exn + youtube option) \<times> world" where
  "app_get_youtube_service g w =
     (case token_file w of
        None \<Rightarrow> (Inr None, w)
      | Some txt \<Rightarrow>
          (case from_authorized_user_file g txt of
             Inl e \<Rightarrow> (Inr None, w)
           | Inr creds \<Rightarrow>
               if \<not> valid creds then
                 (if expired creds \<and> truthy (refresh_token creds) then
                    (case refresh_and_save g creds w of
                       (Inl e, w') \<Rightarrow> (Inr None, w')
                     | (Inr creds', w') \<Rightarrow>
                         (case do_build g creds' of
                            Inl e \<Rightarrow> (Inr None, w')
                          | Inr r \<Rightarrow> (Inr r, w')))
                  else (Inr None, w))
               else (case do_build g creds of
                       Inl e \<Rightarrow> (Inr None, w)
                     | Inr r \<Rightarrow> (Inr r, w))))"

section \<open>Logout (routes/auth.py)\<close>

definition logout :: "world \<Rightarrow> response \<times> world" where
  "logout w =
     (case (if token_file w \<noteq> None then os_remove_token w else Inr w) of
        Inl e \<Rightarrow>
          (jsonify [(''error'', JStr (exn_str e)), (''status'', JStr ''error'')] 500, w)
      | Inr w' \<Rightarrow>
          (jsonify [(''message'', JStr ''Successfully logged out''), (''status'', JStr ''success'')] 200,
           w'\<lparr>session := []\<rparr>))"

section \<open>Requests and configuration\<close>

text \<open>
  An uploaded file is its client-side file name and the length of its stream (what
  \<open>seek(0, 2)\<close> followed by \<open>tell()\<close> returns). A request has the length of its body
  (which holds every uploaded file, so no file is longer than the body), the files and
  form fields in the body and, for the JSON endpoints, its parsed body (\<open>None\<close> when
  there is none).
\<close>

record file_storage =
  filename :: string
  stream_size :: nat

record request =
  content_length :: nat
  req_files :: "(string \<times> file_storage) list"
  req_form :: "(string \<times> string) list"
  req_json :: "(string \<times> string) list option"

text \<open>
  \<open>MAX_CONTENT_LENGTH\<close> is the configuration entry of that name. Flask's configuration
  always holds the key: its value is \<open>None\<close> unless the application sets a number.
  \<open>secure_filename\<close> is werkzeug's; \<open>set_order\<close> is the order in which Python iterates
  over the set \<open>ALLOWED_EXTENSIONS\<close>, which the language leaves open; \<open>mkdtemp_name\<close>
  is the directory name \<open>tempfile.mkdtemp\<close> picks.
\<close>

record env =
  MAX_CONTENT_LENGTH :: "nat option"
  secure_filename :: "string \<Rightarrow> string"
  set_order :: "string list"
  mkdtemp_name :: string

text \<open>app.py: \<open>'MAX_CONTENT_LENGTH': 500 * 1024 * 1024\<close>.\<close>

definition app_MAX_CONTENT_LENGTH :: nat where
  "app_MAX_CONTENT_LENGTH = 500 * 1024 * 1024"

text \<open>
  \<open>request.files\<close> (and \<open>request.form\<close>): the first access parses the body, and the
  framework refuses a body longer than \<open>MAX_CONTENT_LENGTH\<close> by raising
  \<open>RequestEntityTooLarge\<close> there, inside the handler that reads the attribute.
\<close>

definition request_files :: "env \<Rightarrow> request \<Rightarrow> exn + (string \<times> file_storage) list" where
  "request_files ev r =
     (case MAX_CONTENT_LENGTH ev of
        None \<Rightarrow> Inr (req_files r)
      | Some limit \<Rightarrow>
          if content_length r > limit
          then Inl (OtherError
                 ''413 Request Entity Too Large: The data value transmitted exceeds the capacity limit.'')
          else Inr (req_files r))"

section \<open>Validation before upload (routes/upload.py)\<close>

text \<open>
  \<open>current_app.config.get('MAX_CONTENT_LENGTH', 500 * 1024 * 1024)\<close>: the key is always
  there, so the default is never taken and the value may be \<open>None\<close>.
\<close>

definition max_size :: "env \<Rightarrow> nat option" where
  "max_size ev = MAX_CONTENT_LENGTH ev"

text \<open>
  The body of the \<open>try\<close> block: what it returns, or the exception it raises.
  \<open>file_size > max_size\<close> is a \<open>TypeError\<close> when \<open>max_size\<close> is \<open>None\<close>.
\<close>

definition validate_upload_try :: "env \<Rightarrow> request \<Rightarrow> exn + response" where
  "validate_upload_try ev r =
     (case request_files ev r of
        Inl e \<Rightarrow> Inl e
      | Inr files \<Rightarrow>
     (case map_of files ''video'' of
        None \<Rightarrow> Inr (jsonify [(''error'', JStr ''No video file provided'')] 400)
      | Some file \<Rightarrow>
          if filename file = [] then Inr (jsonify [(''error'', JStr ''No file selected'')] 400)
          else
            (case allowed_file (filename file) of
               Inl e \<Rightarrow> Inl e
             | Inr False \<Rightarrow>
                 Inr (jsonify
                   [(''valid'', JBool False),
                    (''error'', JStr (''File type not allowed. Supported formats: ''
                                      @ join '', '' (set_order ev)))] 400)
             | Inr True \<Rightarrow>
                 (let file_size = stream_size file
                  in case max_size ev of
                       None \<Rightarrow>
                         Inl (OtherError
                           (apostrophe @ ''>'' @ apostrophe @ '' not supported between instances of ''
                            @ apostrophe @ ''int'' @ apostrophe @ '' and ''
                            @ apostrophe @ ''NoneType'' @ apostrophe))
                     | Some limit \<Rightarrow>
                         if file_size > limit then
                           Inr (jsonify
                             [(''valid'', JBool False),
                              (''error'', JStr (''File too large. Maximum size: ''
                                                @ str_nat (limit div (1024 * 1024)) @ ''MB''))] 400)
                         else
                           Inr (jsonify
                             [(''valid'', JBool True),
                              (''filename'', JStr (secure_filename ev (filename file))),
                              (''size'', JInt (int file_size)),
                              (''size_mb'', JRound2 (int file_size) (1024 * 1024))] 200)))))"

text \<open>
  The handler: \<open>except Exception\<close> turns an exception into a 500 response. It touches
  neither the files nor the host, so the world comes back as it was.
\<close>

definition validate_upload :: "env \<Rightarrow> request \<Rightarrow> world \<Rightarrow> response \<times> world" where
  "validate_upload ev r w =
     (case validate_upload_try ev r of
        Inl e \<Rightarrow> (jsonify [(''valid'', JBool False), (''error'', JStr (exn_str e))] 500, w)
      | Inr resp \<Rightarrow> (resp, w))"

section \<open>The video host\<close>

text \<open>
  What the host's playlist listing answers: \<open>items\<close> and \<open>nextPageToken\<close> may be
  missing; a playlist resource has the members the handler reads with \<open>[...]\<close>, and
  the optional ones it reads with \<open>.get\<close>.
\<close>

record playlist_resource =
  pl_id :: string
  pl_snippet_title :: string
  pl_snippet_description :: "string option"
  pl_snippet_thumbnails :: "(string \<times> (string \<times> string) list) list option"
  pl_snippet_publishedAt :: string
  pl_status_privacyStatus :: string
  pl_contentDetails :: "(string \<times> int) list option"

record list_response =
  items :: "playlist_resource list option"
  nextPageToken :: "string option"

text \<open>
  The outcomes of the calls made through the client are parameters. A call made once
  has one outcome (\<open>Some e\<close>: it raises \<open>e\<close>); \<open>next_chunk\<close> and the playlist listing
  are called in a loop, and their outcome may differ from one call to the next: the
  first argument numbers the calls of the loop from 0. \<open>next_chunk\<close> answers a pair
  \<open>(status, response)\<close>, the response being the uploaded video's resource once the
  transfer is over.
\<close>

record host =
  media_file_upload :: "string \<Rightarrow> string \<Rightarrow> exn option"
  videos_insert :: "video_body \<Rightarrow> exn option"
  next_chunk :: "nat \<Rightarrow> exn + (nat option \<times> (string \<times> string) list option)"
  playlist_items_insert :: "string \<Rightarrow> string \<Rightarrow> exn option"
  playlists_list :: "nat \<Rightarrow> list_request \<Rightarrow> exn + list_response"

section \<open>Upload (routes/upload.py)\<close>

record upload_job =
  job_title :: string
  job_description :: string
  job_tags :: "string list"
  job_category_id :: string
  job_privacy_status :: string
  job_playlist_id :: "string option"

text \<open>The form fields, with their defaults, and the cleaning of the tags.\<close>

definition read_form :: "(string \<times> string) list \<Rightarrow> upload_job" where
  "read_form form =
     (let tags = (if truthy (map_of form ''tags'')
                  then split CHR '','' (get_default form ''tags'' [])
                  else [])
      in \<lparr>job_title = get_default form ''title'' ''Untitled Video'',
          job_description = get_default form ''description'' [],
          job_tags = map strip (filter (\<lambda>tag. strip tag \<noteq> []) tags),
          job_category_id = get_default form ''category_id'' ''22'',
          job_privacy_status = get_default form ''privacy_status'' ''private'',
          job_playlist_id = map_of form ''playlist_id''\<rparr>)"

text \<open>
  The handler up to and including \<open>file.save(temp_path)\<close>. \<open>Inl\<close>: it leaves before,
  with a response or an exception; \<open>Inr\<close>: the file is saved as \<open>temp_dir/filename\<close>.
\<close>

definition upload_prepare ::
  "google \<Rightarrow> env \<Rightarrow> request \<Rightarrow> world \<Rightarrow>
     ((exn + response) \<times> world) + (upload_job \<times> string \<times> string \<times> world)" where
  "upload_prepare g ev r w =
     (case request_files ev r of
        Inl e \<Rightarrow> Inl (Inl e, w)
      | Inr files \<Rightarrow>
     (case map_of files ''video'' of
        None \<Rightarrow> Inl (Inr (jsonify [(''error'', JStr ''No video file provided'')] 400), w)
      | Some file \<Rightarrow>
          if filename file = [] then Inl (Inr (jsonify [(''error'', JStr ''No file selected'')] 400), w)
          else
            (case allowed_file (filename file) of
               Inl e \<Rightarrow> Inl (Inl e, w)
             | Inr False \<Rightarrow> Inl (Inr (jsonify [(''error'', JStr ''File type not allowed'')] 400), w)
             | Inr True \<Rightarrow>
                 (case get_youtube_service g w of
                    (Inl e, w1) \<Rightarrow> Inl (Inl e, w1)
                  | (Inr None, w1) \<Rightarrow>
                      Inl (Inr (jsonify [(''error'', JStr ''YouTube authentication required'')] 401), w1)
                  | (Inr (Some youtube), w1) \<Rightarrow>
                      (case mkdtemp (mkdtemp_name ev) w1 of
                         Inl e \<Rightarrow> Inl (Inl e, w1)
                       | Inr (temp_dir, w2) \<Rightarrow>
                           (case file_save temp_dir (secure_filename ev (filename file)) w2 of
                              Inl e \<Rightarrow> Inl (Inl e, w2)
                            | Inr w3 \<Rightarrow>
                                Inr (read_form (req_form r), temp_dir,
                                     secure_filename ev (filename file), w3)))))))"

text \<open>
  \<open>while response is None: status, response = insert_request.next_chunk()\<close>. The
  loop need not end: \<open>None\<close> is the run that never leaves it.
\<close>

partial_function (option) upload_loop ::
  "(nat \<Rightarrow> exn + (nat option \<times> (string \<times> string) list option)) \<Rightarrow> nat \<Rightarrow> host_call list \<Rightarrow>
     ((exn + (string \<times> string) list) \<times> host_call list) option" where
  "upload_loop chunk i log =
     (case chunk i of
        Inl e \<Rightarrow> Some (Inl e, log @ [NextChunk])
      | Inr (status, None) \<Rightarrow> upload_loop chunk (Suc i) (log @ [NextChunk])
      | Inr (status, Some response) \<Rightarrow> Some (Inr response, log @ [NextChunk]))"

text \<open>
  The playlist step: \<open>if playlist_id:\<close> one insert call in \<open>try ... except HttpError\<close>,
  which logs a warning and goes on; any other exception leaves the block.
\<close>

definition add_to_playlist ::
  "host \<Rightarrow> string option \<Rightarrow> string \<Rightarrow> world \<Rightarrow> exn option \<times> world" where
  "add_to_playlist h playlist_id video_id w =
     (case playlist_id of
        None \<Rightarrow> (None, w)
      | Some pid \<Rightarrow>
          if pid = [] then (None, w)
          else
            (case playlist_items_insert h pid video_id of
               None \<Rightarrow> (None, w\<lparr>calls := calls w @ [PlaylistItemsInsert pid video_id]\<rparr>)
             | Some (HttpError c s) \<Rightarrow> (None, w\<lparr>calls := calls w @ [PlaylistItemsInsert pid video_id]\<rparr>)
             | Some (OtherError s) \<Rightarrow>
                 (Some (OtherError s), w\<lparr>calls := calls w @ [PlaylistItemsInsert pid video_id]\<rparr>)))"

definition success_response :: "string \<Rightarrow> string \<Rightarrow> response" where
  "success_response video_id title =
     jsonify [(''video_id'', JStr video_id),
              (''video_url'', JStr (''https://www.youtube.com/watch?v='' @ video_id)),
              (''title'', JStr title),
              (''status'', JStr ''success''),
              (''message'', JStr ''Video uploaded successfully'')] 200"

text \<open>What follows the loop, from \<open>video_id = response['id']\<close> to the \<open>return\<close>.\<close>

definition after_upload ::
  "host \<Rightarrow> upload_job \<Rightarrow> (string \<times> string) list \<Rightarrow> world \<Rightarrow> (exn + response) \<times> world" where
  "after_upload h job response w =
     (case map_of response ''id'' of
        None \<Rightarrow> (Inl (OtherError (apostrophe @ ''id'' @ apostrophe)), w)
      | Some video_id \<Rightarrow>
          (case add_to_playlist h (job_playlist_id job) video_id w of
             (Some e, w') \<Rightarrow> (Inl e, w')
           | (None, w') \<Rightarrow> (Inr (success_response video_id (job_title job)), w')))"

text \<open>
  \<open>body\<close>, the video resource sent to the host (its \<open>embeddable\<close>, \<open>license\<close> and
  \<open>publicStatsViewable\<close> members are constants).
\<close>

definition make_body :: "upload_job \<Rightarrow> video_body" where
  "make_body job =
     \<lparr>snippet_title = job_title job, snippet_description = job_description job,
      snippet_tags = job_tags job, snippet_categoryId = job_category_id job,
      status_privacyStatus = job_privacy_status job\<rparr>"

text \<open>The body of the inner \<open>try\<close>.\<close>

definition upload_try ::
  "host \<Rightarrow> upload_job \<Rightarrow> string \<Rightarrow> string \<Rightarrow> world \<Rightarrow> ((exn + response) \<times> world) option" where
  "upload_try h job temp_dir name w =
     (case media_file_upload h temp_dir name of
        Some e \<Rightarrow> Some (Inl e, w)
      | None \<Rightarrow>
          (case videos_insert h (make_body job) of
             Some e \<Rightarrow> Some (Inl e, w)
           | None \<Rightarrow>
               (case upload_loop (next_chunk h) 0
                       (calls w @ [VideosInsert (make_body job) temp_dir name]) of
                  None \<Rightarrow> None
                | Some (Inl e, log) \<Rightarrow> Some (Inl e, w\<lparr>calls := log\<rparr>)
                | Some (Inr response, log) \<Rightarrow> Some (after_upload h job response (w\<lparr>calls := log\<rparr>)))))"

text \<open>
  The \<open>finally\<close> block: \<open>os.remove(temp_path)\<close> then \<open>os.rmdir(temp_dir)\<close>, inside
  \<open>try ... except Exception\<close>, which logs a warning.
\<close>

definition cleanup :: "string \<Rightarrow> string \<Rightarrow> world \<Rightarrow> world" where
  "cleanup temp_dir name w =
     (case os_remove temp_dir name w of
        Inl e \<Rightarrow> w
      | Inr w1 \<Rightarrow> (case os_rmdir temp_dir w1 of Inl e \<Rightarrow> w1 | Inr w2 \<Rightarrow> w2))"

text \<open>The two \<open>except\<close> clauses of the handler.\<close>

definition upload_error_response :: "exn \<Rightarrow> response" where
  "upload_error_response e =
     (case e of
        HttpError c s \<Rightarrow>
          jsonify [(''error'', JStr (''YouTube API error: '' @ (if c \<noteq> [] then c else s))),
                   (''status'', JStr ''error'')] 400
      | OtherError s \<Rightarrow>
          jsonify [(''error'', JStr s), (''status'', JStr ''error'')] 500)"

text \<open>The handler. \<open>None\<close>: it never returns (the upload loop does not end).\<close>

definition upload_video ::
  "google \<Rightarrow> host \<Rightarrow> env \<Rightarrow> request \<Rightarrow> world \<Rightarrow> (response \<times> world) option" where
  "upload_video g h ev r w =
     (case (case upload_prepare g ev r w of
              Inl out \<Rightarrow> Some out
            | Inr (job, temp_dir, name, w3) \<Rightarrow>
                (case upload_try h job temp_dir name w3 of
                   None \<Rightarrow> None
                 | Some (res, w4) \<Rightarrow> Some (res, cleanup temp_dir name w4))) of
        None \<Rightarrow> None
      | Some (Inl e, w') \<Rightarrow> Some (upload_error_response e, w')
      | Some (Inr resp, w') \<Rightarrow> Some (resp, w'))"

section \<open>Playlists (routes/playlists.py)\<close>

definition playlist_info :: "playlist_resource \<Rightarrow> json" where
  "playlist_info item =
     JObj [(''id'', JStr (pl_id item)),
           (''title'', JStr (pl_snippet_title item)),
           (''description'', JStr (case pl_snippet_description item of None \<Rightarrow> [] | Some d \<Rightarrow> d)),
           (''thumbnail'',
              (case map_of (get_default (case pl_snippet_thumbnails item of None \<Rightarrow> [] | Some t \<Rightarrow> t)
                              ''default'' []) ''url'' of
                 None \<Rightarrow> JNull | Some u \<Rightarrow> JStr u)),
           (''privacy_status'', JStr (pl_status_privacyStatus item)),
           (''video_count'',
              JInt (get_default (case pl_contentDetails item of None \<Rightarrow> [] | Some c \<Rightarrow> c)
                      ''itemCount'' 0)),
           (''created_at'', JStr (pl_snippet_publishedAt item))]"

text \<open>\<open>request_params\<close>: the page token is passed only when there is one.\<close>

definition request_params :: "string option \<Rightarrow> list_request" where
  "request_params next_page_token =
     \<lparr>part = ''snippet,status'', mine = True, maxResults = 50,
      pageToken = (if truthy next_page_token then next_page_token else None)\<rparr>"

text \<open>\<open>response.get('items', [])\<close>, each item turned into its \<open>playlist_info\<close>.\<close>

definition page_infos :: "list_response \<Rightarrow> json list" where
  "page_infos response = map playlist_info (case items response of None \<Rightarrow> [] | Some xs \<Rightarrow> xs)"

text \<open>
  The \<open>while True\<close> loop; \<open>i\<close> numbers its calls to the host. A host that always
  answers with a page token keeps it running: \<open>None\<close>.
\<close>

partial_function (option) playlists_loop ::
  "(nat \<Rightarrow> list_request \<Rightarrow> exn + list_response) \<Rightarrow> nat \<Rightarrow> string option \<Rightarrow> json list \<Rightarrow>
     host_call list \<Rightarrow> ((exn + json list) \<times> host_call list) option" where
  "playlists_loop execute i next_page_token playlists log =
     (case execute i (request_params next_page_token) of
        Inl e \<Rightarrow> Some (Inl e, log @ [PlaylistsList (request_params next_page_token)])
      | Inr response \<Rightarrow>
          if \<not> truthy (nextPageToken response)
          then Some (Inr (playlists @ page_infos response),
                     log @ [PlaylistsList (request_params next_page_token)])
          else playlists_loop execute (Suc i) (nextPageToken response)
                 (playlists @ page_infos response)
                 (log @ [PlaylistsList (request_params next_page_token)]))"

definition list_error_response :: "exn \<Rightarrow> response" where
  "list_error_response e =
     (case e of
        HttpError c s \<Rightarrow>
          jsonify [(''error'', JStr (''YouTube API error: '' @ s)), (''status'', JStr ''error'')] 400
      | OtherError s \<Rightarrow>
          jsonify [(''error'', JStr s), (''status'', JStr ''error'')] 500)"

definition list_playlists :: "google \<Rightarrow> host \<Rightarrow> world \<Rightarrow> (response \<times> world) option" where
  "list_playlists g h w =
     (case get_youtube_service g w of
        (Inl e, w1) \<Rightarrow> Some (list_error_response e, w1)
      | (Inr None, w1) \<Rightarrow>
          Some (jsonify [(''error'', JStr ''YouTube authentication required'')] 401, w1)
      | (Inr (Some youtube), w1) \<Rightarrow>
          (case playlists_loop (playlists_list h) 0 None [] (calls w1) of
             None \<Rightarrow> None
           | Some (Inl e, log) \<Rightarrow> Some (list_error_response e, w1\<lparr>calls := log\<rparr>)
           | Some (Inr playlists, log) \<Rightarrow>
               Some (jsonify [(''playlists'', JList playlists),
                              (''total_count'', JInt (int (length playlists))),
                              (''status'', JStr ''success'')] 200,
                     w1\<lparr>calls := log\<rparr>)))"

section \<open>Metadata synthesis (routes/metadata.py)\<close>

text \<open>
  One call to \<open>openai.chat.completions.create\<close>: the prompt sent as the single user
  message, \<open>max_tokens\<close>, and the temperature in tenths. The language model is a
  parameter: the outcome of the \<open>i\<close>-th call of a request is an exception or the
  \<open>message.content\<close> of each choice (\<open>None\<close> when a choice has no content).
\<close>

record chat_request =
  model :: string
  prompt :: string
  max_tokens :: nat
  temperature_tenths :: nat

type_synonym openai = "nat \<Rightarrow> chat_request \<Rightarrow> exn + string option list"

text \<open>\<open>response.choices[0].message.content.strip()\<close>.\<close>

definition first_content :: "string option list \<Rightarrow> exn + string" where
  "first_content choices =
     (case index choices 0 of
        Inl e \<Rightarrow> Inl e
      | Inr None \<Rightarrow> Inl (OtherError ''AttributeError'')
      | Inr (Some c) \<Rightarrow> Inr (strip c))"

definition complete :: "openai \<Rightarrow> nat \<Rightarrow> string \<Rightarrow> nat \<Rightarrow> nat \<Rightarrow> exn + string" where
  "complete ai i p mt temp =
     (case ai i \<lparr>model = ''gpt-4o-mini'', prompt = p, max_tokens = mt, temperature_tenths = temp\<rparr> of
        Inl e \<Rightarrow> Inl e
      | Inr choices \<Rightarrow> first_content choices)"

definition nl :: string where
  "nl = [CHR 0x0A]"

definition title_prompt :: "string \<Rightarrow> string" where
  "title_prompt ctx =
     nl @
     ''        Generate a compelling YouTube video title based on the following information:'' @ nl @
     ''        '' @ ctx @ nl @
     ''        '' @ nl @
     ''        Requirements:'' @ nl @
     ''        - Maximum 60 characters'' @ nl @
     ''        - Engaging and click-worthy'' @ nl @
     ''        - SEO-friendly'' @ nl @
     ''        - No quotation marks'' @ nl @
     ''        - Appropriate for the target audience'' @ nl @
     ''        ''"

definition description_prompt :: "string \<Rightarrow> string" where
  "description_prompt ctx =
     nl @
     ''        Create a detailed YouTube video description based on the following information:'' @ nl @
     ''        '' @ ctx @ nl @
     ''        '' @ nl @
     ''        Requirements:'' @ nl @
     ''        - Engaging introduction'' @ nl @
     ''        - Key points covered in the video'' @ nl @
     ''        - Call to action (like, subscribe, comment)'' @ nl @
     ''        - 200-500 words'' @ nl @
     ''        - No timestamps or external links'' @ nl @
     ''        - SEO-optimized'' @ nl @
     ''        - Professional tone'' @ nl @
     ''        ''"

definition tags_prompt :: "string \<Rightarrow> string" where
  "tags_prompt ctx =
     nl @
     ''        Generate relevant YouTube tags for a video with the following information:'' @ nl @
     ''        '' @ ctx @ nl @
     ''        '' @ nl @
     ''        Requirements:'' @ nl @
     ''        - 10-15 tags'' @ nl @
     ''        - Mix of broad and specific tags'' @ nl @
     ''        - SEO-optimized'' @ nl @
     ''        - Relevant to content'' @ nl @
     ''        - Return as comma-separated list'' @ nl @
     ''        ''"

definition category_prompt :: "string \<Rightarrow> string" where
  "category_prompt ctx =
     nl @
     ''        Based on the following video information, suggest the most appropriate YouTube category:'' @ nl @
     ''        '' @ ctx @ nl @
     ''        '' @ nl @
     ''        Choose from these categories and return only the category ID number:'' @ nl @
     ''        1 - Film & Animation'' @ nl @
     ''        2 - Autos & Vehicles'' @ nl @
     ''        10 - Music'' @ nl @
     ''        15 - Pets & Animals'' @ nl @
     ''        17 - Sports'' @ nl @
     ''        19 - Travel & Events'' @ nl @
     ''        20 - Gaming'' @ nl @
     ''        22 - People & Blogs'' @ nl @
     ''        23 - Comedy'' @ nl @
     ''        24 - Entertainment'' @ nl @
     ''        25 - News & Politics'' @ nl @
     ''        26 - Howto & Style'' @ nl @
     ''        27 - Education'' @ nl @
     ''        28 - Science & Technology'' @ nl @
     ''        '' @ nl @
     ''        Return only the number.'' @ nl @
     ''        ''"

text \<open>The context handed to every prompt.\<close>

definition make_context :: "string \<Rightarrow> string \<Rightarrow> string \<Rightarrow> string \<Rightarrow> string" where
  "make_context video_topic input_text target_audience video_style =
     (if video_topic \<noteq> [] then ''Topic: '' @ video_topic @ nl else [])
     @ (if input_text \<noteq> [] then ''Content: '' @ input_text @ nl else [])
     @ ''Target Audience: '' @ target_audience @ nl
     @ ''Style: '' @ video_style"

text \<open>
  \<open>tags = [tag.strip() for tag in tags_text.split(',') if tag.strip()]\<close>, on the
  stripped completion \<open>tags_text\<close>.
\<close>

definition parse_tags :: "string \<Rightarrow> string list" where
  "parse_tags tags_text =
     map strip (filter (\<lambda>tag. strip tag \<noteq> []) (split CHR '','' tags_text))"

definition valid_categories :: "string list" where
  "valid_categories =
     [''1'', ''2'', ''10'', ''15'', ''17'', ''19'', ''20'', ''22'', ''23'', ''24'', ''25'', ''26'', ''27'', ''28'']"

text \<open>\<open>if category_id not in valid_categories: category_id = '22'\<close>.\<close>

definition validate_category :: "string \<Rightarrow> string" where
  "validate_category category_id =
     (if category_id \<notin> set valid_categories then ''22'' else category_id)"

text \<open>The body of the \<open>try\<close> block: four calls, one after the other.\<close>

definition generate_metadata_try :: "openai \<Rightarrow> request \<Rightarrow> exn + response" where
  "generate_metadata_try ai r =
     (case req_json r of
        None \<Rightarrow> Inr (jsonify [(''error'', JStr ''No data provided'')] 400)
      | Some data \<Rightarrow>
          if data = [] then Inr (jsonify [(''error'', JStr ''No data provided'')] 400)
          else
            (let input_text = get_default data ''text'' [];
                 video_topic = get_default data ''topic'' [];
                 target_audience = get_default data ''audience'' ''general'';
                 video_style = get_default data ''style'' ''informative''
             in if input_text = [] \<and> video_topic = []
                then Inr (jsonify [(''error'', JStr ''Either text or topic must be provided'')] 400)
                else
                  (let ctx = make_context video_topic input_text target_audience video_style
                   in case complete ai 0 (title_prompt ctx) 100 7 of
                        Inl e \<Rightarrow> Inl e
                      | Inr title \<Rightarrow>
                     (case complete ai 1 (description_prompt ctx) 800 7 of
                        Inl e \<Rightarrow> Inl e
                      | Inr description \<Rightarrow>
                     (case complete ai 2 (tags_prompt ctx) 200 5 of
                        Inl e \<Rightarrow> Inl e
                      | Inr tags_text \<Rightarrow>
                     (case complete ai 3 (category_prompt ctx) 10 3 of
                        Inl e \<Rightarrow> Inl e
                      | Inr category_id \<Rightarrow>
                          Inr (jsonify
                            [(''title'', JStr title),
                             (''description'', JStr description),
                             (''tags'', JList (map JStr (parse_tags tags_text))),
                             (''category_id'', JStr (validate_category category_id)),
                             (''status'', JStr ''success'')] 200)))))))"

definition generate_metadata :: "openai \<Rightarrow> request \<Rightarrow> response" where
  "generate_metadata ai r =
     (case generate_metadata_try ai r of
        Inl e \<Rightarrow> jsonify [(''error'', JStr (exn_str e)), (''status'', JStr ''error'')] 500
      | Inr resp \<Rightarrow> resp)"

section \<open>Properties stated on words, tags and pages\<close>

text \<open>A clean tag: not empty, no comma, no white space at either end.\<close>

definition clean_tag :: "string \<Rightarrow> bool" where
  "clean_tag t = (t \<noteq> [] \<and> CHR '','' \<notin> set t \<and> \<not> isspace (hd t) \<and> \<not> isspace (last t))"

text \<open>
  The page token the loop sends with its \<open>i\<close>-th call when the host answers with
  \<open>pages\<close>: none at first, then the token of the page before.
\<close>

definition page_token :: "list_response list \<Rightarrow> nat \<Rightarrow> string option" where
  "page_token pages i = (if i = 0 then None else nextPageToken (pages ! (i - 1)))"

text \<open>The items of a page, and the items of all pages in page order.\<close>

definition page_items :: "list_response \<Rightarrow> playlist_resource list" where
  "page_items p = (case items p of None \<Rightarrow> [] | Some xs \<Rightarrow> xs)"

definition all_items :: "list_response list \<Rightarrow> playlist_resource list" where
  "all_items pages = concat (map page_items pages)"

text \<open>The \<open>id\<close> member of a JSON object, when it has one that is a string.\<close>

fun entry_id :: "json \<Rightarrow> string option" where
  "entry_id (JObj members) = (case map_of members ''id'' of Some (JStr s) \<Rightarrow> Some s | _ \<Rightarrow> None)"
| "entry_id _ = None"

text \<open>The entries a response lists under \<open>playlists\<close>.\<close>

definition listed :: "response \<Rightarrow> json list" where
  "listed resp = (case field resp ''playlists'' of Some (JList entries) \<Rightarrow> entries | _ \<Rightarrow> [])"

section \<open>Sample inputs\<close>

text \<open>Stored credentials that are still valid, and a library that accepts them.\<close>

definition ex_credentials :: credentials where
  "ex_credentials = \<lparr>token = Some ''ya29.a0'', expired = False, refresh_token = Some ''1//0g''\<rparr>"

definition ex_google :: google where
  "ex_google =
     \<lparr>from_authorized_user_file = (\<lambda>txt. Inr ex_credentials),
      refresh = (\<lambda>c. Inr c),
      to_json = (\<lambda>c. ''{}''),
      write_token = (\<lambda>txt. None),
      build = (\<lambda>c. None)\<rparr>"

text \<open>Stored credentials that have expired and carry no refresh token.\<close>

definition ex_expired :: credentials where
  "ex_expired = \<lparr>token = Some ''ya29.a0'', expired = True, refresh_token = None\<rparr>"

definition ex_google_expired :: google where
  "ex_google_expired = ex_google\<lparr>from_authorized_user_file := (\<lambda>txt. Inr ex_expired)\<rparr>"

definition ex_world :: world where
  "ex_world =
     \<lparr>token_file = Some ''{}'', tmp = Map.empty, session = [(''oauth_state'', ''s1'')], calls = []\<rparr>"

definition ex_env :: env where
  "ex_env =
     \<lparr>MAX_CONTENT_LENGTH = Some app_MAX_CONTENT_LENGTH,
      secure_filename = (\<lambda>name. name),
      set_order = [''mp4'', ''avi'', ''mov'', ''wmv'', ''flv'', ''webm'', ''mkv''],
      mkdtemp_name = ''/tmp/tmpk3''\<rparr>"

text \<open>
  A request carrying one file under \<open>video\<close>, with the given name and size; the body
  is the file and 200 bytes of multipart framing.
\<close>

definition file_request :: "string \<Rightarrow> nat \<Rightarrow> request" where
  "file_request name n =
     \<lparr>content_length = n + 200,
      req_files = [(''video'', \<lparr>filename = name, stream_size = n\<rparr>)],
      req_form = [], req_json = None\<rparr>"

text \<open>An upload request that names a playlist.\<close>

definition ex_request :: request where
  "ex_request =
     \<lparr>content_length = 2400,
      req_files = [(''video'', \<lparr>filename = ''clip.mp4'', stream_size = 2048\<rparr>)],
      req_form = [(''title'', ''Demo''), (''playlist_id'', ''PL7'')],
      req_json = None\<rparr>"

text \<open>
  A host on which the transfer ends with the second chunk, and whose playlist insert
  fails as given.
\<close>

definition ex_host :: "exn \<Rightarrow> host" where
  "ex_host e =
     \<lparr>media_file_upload = (\<lambda>dir name. None),
      videos_insert = (\<lambda>b. None),
      next_chunk = (\<lambda>i. if i = 0 then Inr (Some 50, None) else Inr (None, Some [(''id'', ''v9'')])),
      playlist_items_insert = (\<lambda>pid vid. Some e),
      playlists_list = (\<lambda>i rq. Inl (OtherError ''not mocked''))\<rparr>"

text \<open>
  Two pages of one playlist each, the first with a page token, and a host that serves
  the first page to a request without a token and the second to a request with the
  first page's token.
\<close>

definition ex_playlist :: "string \<Rightarrow> playlist_resource" where
  "ex_playlist name =
     \<lparr>pl_id = name, pl_snippet_title = name, pl_snippet_description = None,
      pl_snippet_thumbnails = None, pl_snippet_publishedAt = ''2024-01-01T00:00:00Z'',
      pl_status_privacyStatus = ''private'', pl_contentDetails = None\<rparr>"

definition ex_pages :: "list_response list" where
  "ex_pages =
     [\<lparr>items = Some [ex_playlist ''PL1''], nextPageToken = Some ''CAUQAA''\<rparr>,
      \<lparr>items = Some [ex_playlist ''PL2''], nextPageToken = None\<rparr>]"

definition ex_paging_host :: host where
  "ex_paging_host =
     (ex_host (OtherError ''not mocked''))
       \<lparr>playlists_list :=
          (\<lambda>i rq. if pageToken rq = None then Inr (ex_pages ! 0)
                   else if pageToken rq = Some ''CAUQAA'' then Inr (ex_pages ! 1)
                   else Inl (HttpError ''invalidPageToken'' ''HttpError 400''))\<rparr>"

text \<open>A language model that answers the category prompt with the given text.\<close>

definition ex_ai :: "string \<Rightarrow> openai" where
  "ex_ai category = (\<lambda>i rq. if i = 3 then Inr [Some category] else Inr [Some ''Sample text''])"

definition ex_metadata_request :: request where
  "ex_metadata_request =
     \<lparr>content_length = 18, req_files = [], req_form = [], req_json = Some [(''topic'', ''Chess'')]\<rparr>"

section \<open>Facts about the string operations\<close>

lemma lstrip_id: "s \<noteq> [] \<Longrightarrow> \<not> isspace (hd s) \<Longrightarrow> lstrip s = s"
  by (cases s) (simp_all add: lstrip_def)

lemma rstrip_id: "s \<noteq> [] \<Longrightarrow> \<not> isspace (last s) \<Longrightarrow> rstrip s = s"
  by (cases s rule: rev_cases) (simp_all add: rstrip_def)

lemma strip_id: "s \<noteq> [] \<Longrightarrow> \<not> isspace (hd s) \<Longrightarrow> \<not> isspace (last s) \<Longrightarrow> strip s = s"
  by (simp add: strip_def lstrip_id rstrip_id)

lemma split_no_sep: "sep \<notin> set s \<Longrightarrow> split sep s = [s]"
  by (induction s) auto

lemma split_append_sep: "sep \<notin> set s \<Longrightarrow> split sep (s @ sep # r) = s # split sep r"
  by (induction s) auto

lemma split_join:
  "xs \<noteq> [] \<Longrightarrow> \<forall>x\<in>set xs. sep \<notin> set x \<Longrightarrow> split sep (join [sep] xs) = xs"
proof (induction "[sep]" xs rule: join.induct)
  case 1
  then show ?case by simp
next
  case (2 x)
  then show ?case by (simp add: split_no_sep)
next
  case (3 x y ys)
  then show ?case by (simp add: split_append_sep)
qed

lemma join_not_Nil: "xs \<noteq> [] \<Longrightarrow> \<forall>x\<in>set xs. x \<noteq> [] \<Longrightarrow> join sep xs \<noteq> []"
  by (induction sep xs rule: join.induct) auto

lemma hd_join: "xs \<noteq> [] \<Longrightarrow> \<forall>x\<in>set xs. x \<noteq> [] \<Longrightarrow> hd (join sep xs) = hd (hd xs)"
  by (induction sep xs rule: join.induct) auto

lemma last_join: "xs \<noteq> [] \<Longrightarrow> \<forall>x\<in>set xs. x \<noteq> [] \<Longrightarrow> last (join sep xs) = last (last xs)"
  by (induction sep xs rule: join.induct) (auto simp: join_not_Nil)

lemma map_strip_clean:
  "\<forall>t\<in>set tags. clean_tag t \<Longrightarrow> map strip (filter (\<lambda>tag. strip tag \<noteq> []) tags) = tags"
  by (induction tags) (auto simp: clean_tag_def strip_id)

lemma strip_join_clean:
  assumes "\<forall>t\<in>set tags. clean_tag t"
  shows "strip (join '','' tags) = join '','' tags"
proof (cases "tags = []")
  case True
  then show ?thesis by (simp add: strip_def lstrip_def rstrip_def)
next
  case False
  have ne: "\<forall>t\<in>set tags. t \<noteq> []"
    using assms by (simp add: clean_tag_def)
  have "\<not> isspace (hd (join '','' tags))"
    using False ne assms by (simp add: hd_join clean_tag_def)
  moreover have "\<not> isspace (last (join '','' tags))"
    using False ne assms by (simp add: last_join clean_tag_def)
  ultimately show ?thesis
    using False ne by (simp add: strip_id join_not_Nil)
qed

lemma rsplit1_last:
  assumes "sep \<notin> set ext"
  shows "rsplit1 sep (pre @ sep # ext) = [pre, ext]"
proof -
  have ne: "\<And>x. x \<in> set (rev ext) \<Longrightarrow> x \<noteq> sep"
    using assms by auto
  have "takeWhile (\<lambda>c. c \<noteq> sep) (rev ext @ sep # rev pre)
          = rev ext @ takeWhile (\<lambda>c. c \<noteq> sep) (sep # rev pre)"
    by (rule takeWhile_append2) (rule ne)
  then have t: "takeWhile (\<lambda>c. c \<noteq> sep) (rev ext @ sep # rev pre) = rev ext"
    by simp
  have "dropWhile (\<lambda>c. c \<noteq> sep) (rev ext @ sep # rev pre)
          = dropWhile (\<lambda>c. c \<noteq> sep) (sep # rev pre)"
    by (rule dropWhile_append2) (rule ne)
  then have d: "dropWhile (\<lambda>c. c \<noteq> sep) (rev ext @ sep # rev pre) = sep # rev pre"
    by simp
  show ?thesis
    unfolding rsplit1_def by (simp add: t d del: takeWhile_append2 dropWhile_append2)
qed

lemma allowed_file_split:
  assumes "CHR ''.'' \<notin> set ext"
  shows "allowed_file (pre @ CHR ''.'' # ext) = Inr (lower ext \<in> ALLOWED_EXTENSIONS)"
  using assms by (simp add: allowed_file_def rsplit1_last index_def)

lemma allowed_file_no_dot: "CHR ''.'' \<notin> set f \<Longrightarrow> allowed_file f = Inr False"
  by (simp add: allowed_file_def)

lemma allowed_file_char:
  "allowed_file f =
     Inr (\<exists>pre ext. f = pre @ CHR ''.'' # ext \<and> CHR ''.'' \<notin> set ext \<and> lower ext \<in> ALLOWED_EXTENSIONS)"
proof (cases "CHR ''.'' \<in> set f")
  case False
  then show ?thesis by (auto simp: allowed_file_no_dot)
next
  case True
  then obtain pre ext where d: "f = pre @ CHR ''.'' # ext" "CHR ''.'' \<notin> set ext"
    by (metis split_list_last)
  have u: "ext' = ext" if "f = pre' @ CHR ''.'' # ext'" "CHR ''.'' \<notin> set ext'" for pre' ext'
    using rsplit1_last[OF that(2), of pre'] rsplit1_last[OF d(2), of pre] that(1) d(1) by simp
  have "(\<exists>pre ext. f = pre @ CHR ''.'' # ext \<and> CHR ''.'' \<notin> set ext \<and> lower ext \<in> ALLOWED_EXTENSIONS)
          = (lower ext \<in> ALLOWED_EXTENSIONS)"
    using d u by blast
  then show ?thesis using d by (simp add: allowed_file_split)
qed

lemma allowed_clip: "allowed_file ''clip.mp4'' = Inr True"
  by code_simp

section \<open>The extension check\<close>

text \<open>
  C10. \<open>allowed_file\<close> never raises, and accepts a file name exactly when the name
  has a dot and the text after its last dot, lowercased, is one of mp4, avi, mov, wmv,
  flv, webm, mkv: the name splits as \<open>pre . ext\<close> with no dot in \<open>ext\<close> and
  \<open>lower ext\<close> in the allow-list.
\<close>

theorem allowed_file_iff:
  "allowed_file f =
     Inr (\<exists>pre ext. f = pre @ CHR ''.'' # ext \<and> CHR ''.'' \<notin> set ext \<and> lower ext \<in> ALLOWED_EXTENSIONS)"
  by (rule allowed_file_char)

text \<open>\<open>VIDEO.MP4\<close> is accepted; \<open>mp4\<close>, which has no dot, is rejected.\<close>

theorem allowed_file_iff_witness:
  "allowed_file ''VIDEO.MP4'' = Inr True \<and> allowed_file ''mp4'' = Inr False"
proof -
  have l: "lower ''MP4'' = ''mp4''"
    by code_simp
  have "''VIDEO.MP4'' = ''VIDEO'' @ CHR ''.'' # ''MP4'' \<and> CHR ''.'' \<notin> set ''MP4''
          \<and> lower ''MP4'' \<in> ALLOWED_EXTENSIONS"
    by (simp add: l ALLOWED_EXTENSIONS_def)
  then have "\<exists>pre ext. ''VIDEO.MP4'' = pre @ CHR ''.'' # ext \<and> CHR ''.'' \<notin> set ext
          \<and> lower ext \<in> ALLOWED_EXTENSIONS"
    by blast
  then have a: "allowed_file ''VIDEO.MP4'' = Inr True"
    using allowed_file_iff [of "''VIDEO.MP4''"] by simp
  have "\<not> (\<exists>pre ext. ''mp4'' = pre @ CHR ''.'' # ext \<and> CHR ''.'' \<notin> set ext
          \<and> lower ext \<in> ALLOWED_EXTENSIONS)"
  proof
    assume "\<exists>pre ext. ''mp4'' = pre @ CHR ''.'' # ext \<and> CHR ''.'' \<notin> set ext
          \<and> lower ext \<in> ALLOWED_EXTENSIONS"
    then obtain pre ext where "''mp4'' = pre @ CHR ''.'' # ext" by blast
    then have "CHR ''.'' \<in> set ''mp4''" by (metis in_set_conv_decomp)
    then show False by simp
  qed
  then have b: "allowed_file ''mp4'' = Inr False"
    using allowed_file_iff [of "''mp4''"] by simp
  show ?thesis using a b by simp
qed

section \<open>Tag parsing\<close>

text \<open>
  C5. Parsing the comma-joined string of a list of clean tags (each one non-empty,
  without a comma, without white space at its ends) gives the list back, both for
  the parsing step alone and with the \<open>strip\<close> the handler applies to the whole
  completion first.
\<close>

theorem parse_tags_join:
  assumes "\<forall>t\<in>set tags. clean_tag t"
  shows "parse_tags (join '','' tags) = tags \<and> parse_tags (strip (join '','' tags)) = tags"
proof (cases "tags = []")
  case True
  then show ?thesis by (simp add: parse_tags_def strip_def lstrip_def rstrip_def)
next
  case False
  have nc: "\<forall>t\<in>set tags. CHR '','' \<notin> set t"
    using assms by (simp add: clean_tag_def)
  have "parse_tags (join '','' tags) = tags"
    using False nc assms by (simp add: parse_tags_def split_join map_strip_clean)
  then show ?thesis
    using assms by (simp add: strip_join_clean)
qed

theorem parse_tags_join_witness:
  "clean_tag ''python tips'' \<and> clean_tag ''web-dev'' \<and> clean_tag ''AI'' \<and>
   join '','' [''python tips'', ''web-dev'', ''AI''] = ''python tips,web-dev,AI'' \<and>
   parse_tags ''python tips,web-dev,AI'' = [''python tips'', ''web-dev'', ''AI'']"
proof -
  have c: "clean_tag ''python tips''" "clean_tag ''web-dev''" "clean_tag ''AI''"
    by (simp_all add: clean_tag_def isspace_def)
  then have h: "\<forall>t\<in>set [''python tips'', ''web-dev'', ''AI'']. clean_tag t"
    by simp
  have j: "join '','' [''python tips'', ''web-dev'', ''AI''] = ''python tips,web-dev,AI''"
    by simp
  show ?thesis using c j parse_tags_join [OF h] by simp
qed

section \<open>The client factory\<close>

lemma get_youtube_service_never_raises: "\<exists>r. fst (get_youtube_service g w) = Inr r"
  by (auto simp: get_youtube_service_def split: prod.splits sum.splits)

lemma app_get_youtube_service_never_raises: "\<exists>r. fst (app_get_youtube_service g w) = Inr r"
  by (auto simp: app_get_youtube_service_def split: option.splits prod.splits sum.splits)

lemma no_token_file:
  "token_file w = None \<Longrightarrow>
     get_youtube_service g w = (Inr None, w) \<and> app_get_youtube_service g w = (Inr None, w)"
  by (simp add: get_youtube_service_def service_body_def app_get_youtube_service_def)

lemma unreadable_token_file:
  "token_file w = Some stored \<Longrightarrow> from_authorized_user_file g stored = Inl e \<Longrightarrow>
     get_youtube_service g w = (Inr None, w) \<and> app_get_youtube_service g w = (Inr None, w)"
  by (simp add: get_youtube_service_def service_body_def app_get_youtube_service_def)

lemma expired_without_refresh_token:
  "token_file w = Some stored \<Longrightarrow> from_authorized_user_file g stored = Inr c \<Longrightarrow> expired c \<Longrightarrow>
   \<not> truthy (refresh_token c) \<Longrightarrow>
     get_youtube_service g w = (Inr None, w) \<and> app_get_youtube_service g w = (Inr None, w)"
  by (simp add: get_youtube_service_def service_body_def app_get_youtube_service_def valid_def)

lemma refresh_failure:
  "token_file w = Some stored \<Longrightarrow> from_authorized_user_file g stored = Inr c \<Longrightarrow> \<not> valid c \<Longrightarrow>
   refresh g c = Inl e \<Longrightarrow>
     get_youtube_service g w = (Inr None, w) \<and> app_get_youtube_service g w = (Inr None, w)"
  by (simp add: get_youtube_service_def service_body_def app_get_youtube_service_def
      refresh_and_save_def)

text \<open>
  C1. Neither \<open>get_youtube_service\<close> (services/youtube\_service.py) nor its twin in
  app.py ever raises. Both return \<open>None\<close>, leaving the world as it was, when the
  token file parses to credentials that are expired and have no refresh token (\<open>None\<close>
  or the empty string); and likewise when there is no token file, when the file does not
  parse, and when the credentials are not valid and the refresh exchange fails.
\<close>

theorem get_youtube_service_absent:
  "(\<exists>r. fst (get_youtube_service g w) = Inr r) \<and>
   (\<exists>r. fst (app_get_youtube_service g w) = Inr r) \<and>
   (token_file w = Some stored \<and> from_authorized_user_file g stored = Inr c \<and> expired c \<and>
      \<not> truthy (refresh_token c) \<longrightarrow>
        get_youtube_service g w = (Inr None, w) \<and> app_get_youtube_service g w = (Inr None, w)) \<and>
   (token_file w = None \<longrightarrow>
        get_youtube_service g w = (Inr None, w) \<and> app_get_youtube_service g w = (Inr None, w)) \<and>
   (token_file w = Some stored \<and> from_authorized_user_file g stored = Inl e \<longrightarrow>
        get_youtube_service g w = (Inr None, w) \<and> app_get_youtube_service g w = (Inr None, w)) \<and>
   (token_file w = Some stored \<and> from_authorized_user_file g stored = Inr c \<and> \<not> valid c \<and>
      refresh g c = Inl e \<longrightarrow>
        get_youtube_service g w = (Inr None, w) \<and> app_get_youtube_service g w = (Inr None, w))"
  using get_youtube_service_never_raises [of g w] app_get_youtube_service_never_raises [of g w]
    no_token_file [of w g] unreadable_token_file [of w stored g e]
    expired_without_refresh_token [of w stored g c] refresh_failure [of w stored g c e]
  by blast

theorem get_youtube_service_absent_witness:
  "token_file ex_world = Some ''{}'' \<and>
   from_authorized_user_file ex_google_expired ''{}'' = Inr ex_expired \<and>
   expired ex_expired \<and> \<not> truthy (refresh_token ex_expired) \<and>
   get_youtube_service ex_google_expired ex_world = (Inr None, ex_world) \<and>
   app_get_youtube_service ex_google_expired ex_world = (Inr None, ex_world)"
proof -
  have h: "token_file ex_world = Some ''{}''"
    "from_authorized_user_file ex_google_expired ''{}'' = Inr ex_expired"
    "expired ex_expired" "\<not> truthy (refresh_token ex_expired)"
    by (simp_all add: ex_world_def ex_google_expired_def ex_google_def ex_expired_def truthy_def)
  show ?thesis
    using h get_youtube_service_absent [of ex_google_expired ex_world "''{}''" ex_expired "OtherError []"]
    by blast
qed

section \<open>Logout\<close>

text \<open>
  C9. \<open>logout\<close> answers \<open>status: success\<close> with HTTP 200 whether or not the token
  file exists; afterwards the token file is absent and the session is empty; and a
  second logout right after gives the same response and leaves the same state.
\<close>

theorem logout_idempotent:
  "fst (logout w) =
     jsonify [(''message'', JStr ''Successfully logged out''), (''status'', JStr ''success'')] 200 \<and>
   token_file (snd (logout w)) = None \<and>
   session (snd (logout w)) = [] \<and>
   logout (snd (logout w)) = logout w"
  by (simp add: logout_def os_remove_token_def)

theorem logout_idempotent_witness:
  "field (fst (logout ex_world)) ''status'' = Some (JStr ''success'') \<and>
   resp_status (fst (logout ex_world)) = 200 \<and>
   token_file ex_world = Some ''{}'' \<and>
   token_file (snd (logout ex_world)) = None \<and>
   session (snd (logout ex_world)) = [] \<and>
   logout (snd (logout ex_world)) = logout ex_world"
  using logout_idempotent [of ex_world]
  by (simp add: field_def jsonify_def ex_world_def)

section \<open>Validation before upload\<close>

lemma allowed_file_total: "\<exists>b. allowed_file f = Inr b"
  by (simp add: allowed_file_char)

lemma request_files_refused:
  "MAX_CONTENT_LENGTH ev = Some limit \<Longrightarrow> limit < content_length r \<Longrightarrow>
     request_files ev r = Inl (OtherError
       ''413 Request Entity Too Large: The data value transmitted exceeds the capacity limit.'')"
  by (simp add: request_files_def)

lemma request_files_cases:
  "request_files ev r = Inr (req_files r) \<or> (\<exists>e. request_files ev r = Inl e)"
  by (simp add: request_files_def split: option.splits)

lemma validate_upload_refused:
  "request_files ev r = Inl e \<Longrightarrow>
     validate_upload ev r w = (jsonify [(''valid'', JBool False), (''error'', JStr (exn_str e))] 500, w)"
  by (simp add: validate_upload_def validate_upload_try_def)

lemma validate_upload_not_allowed:
  assumes "request_files ev r = Inr (req_files r)"
    and "map_of (req_files r) ''video'' = Some file" and "filename file \<noteq> []"
    and "allowed_file (filename file) = Inr False"
  shows "validate_upload ev r w =
           (jsonify [(''valid'', JBool False),
                     (''error'', JStr (''File type not allowed. Supported formats: ''
                                       @ join '', '' (set_order ev)))] 400, w)"
  using assms by (simp add: validate_upload_def validate_upload_try_def)

lemma ex_env_limit: "MAX_CONTENT_LENGTH ex_env = Some (500 * 1024 * 1024)"
  by (simp add: ex_env_def app_MAX_CONTENT_LENGTH_def)

lemma small_request_files:
  "n + 200 \<le> 500 * 1024 * 1024 \<Longrightarrow>
     request_files ex_env (file_request name n) = Inr [(''video'', \<lparr>filename = name, stream_size = n\<rparr>)]"
  by (simp add: request_files_def ex_env_limit file_request_def)

text \<open>
  C6. What the handler does where the claim expects HTTP 400. The ceiling it compares
  the file with is \<open>MAX_CONTENT_LENGTH\<close>, the limit the framework itself puts on the
  body. A request whose video file is larger than the ceiling (600 MiB against 500 MiB)
  has a body larger than the ceiling, so reading \<open>request.files\<close> raises inside the
  \<open>try\<close> and the handler's \<open>except\<close> answers \<open>valid = false\<close> with HTTP 500; the
  branch that answers 400 with \<open>File too large\<close> is not reached. The world is left as
  it was: no temporary file, no call to the host.
\<close>

theorem validate_upload_oversize_answers_500:
  assumes "MAX_CONTENT_LENGTH ev = Some limit"
    and "map_of (req_files r) ''video'' = Some file"
    and "stream_size file \<le> content_length r"
    and "limit < stream_size file"
  shows "validate_upload ev r w =
           (jsonify [(''valid'', JBool False),
                     (''error'', JStr ''413 Request Entity Too Large: The data value transmitted exceeds the capacity limit.'')]
              500, w)"
proof -
  have "limit < content_length r"
    using assms(3,4) by simp
  then show ?thesis
    using validate_upload_refused [OF request_files_refused [OF assms(1)], of r w] by simp
qed

theorem validate_upload_oversize_answers_500_witness:
  "MAX_CONTENT_LENGTH ex_env = Some (500 * 1024 * 1024) \<and>
   map_of (req_files (file_request ''big.mp4'' (600 * 1024 * 1024))) ''video''
     = Some \<lparr>filename = ''big.mp4'', stream_size = 600 * 1024 * 1024\<rparr> \<and>
   resp_status (fst (validate_upload ex_env (file_request ''big.mp4'' (600 * 1024 * 1024)) ex_world)) = 500 \<and>
   field (fst (validate_upload ex_env (file_request ''big.mp4'' (600 * 1024 * 1024)) ex_world)) ''valid''
     = Some (JBool False) \<and>
   snd (validate_upload ex_env (file_request ''big.mp4'' (600 * 1024 * 1024)) ex_world) = ex_world"
proof -
  have f: "map_of (req_files (file_request ''big.mp4'' (600 * 1024 * 1024))) ''video''
             = Some \<lparr>filename = ''big.mp4'', stream_size = 600 * 1024 * 1024\<rparr>"
    by (simp add: file_request_def)
  have c: "stream_size \<lparr>filename = ''big.mp4'', stream_size = 600 * 1024 * 1024\<rparr>
             \<le> content_length (file_request ''big.mp4'' (600 * 1024 * 1024))"
    by (simp add: file_request_def)
  have s: "500 * 1024 * 1024 < stream_size \<lparr>filename = ''big.mp4'', stream_size = 600 * 1024 * 1024\<rparr>"
    by simp
  show ?thesis
    using validate_upload_oversize_answers_500 [OF ex_env_limit f c s, of ex_world] ex_env_limit f
    by (simp add: field_def jsonify_def)
qed

text \<open>
  C7, as the claim states it, fails: the empty file name has no allowed extension, yet
  the answer to it (400, \<open>No file selected\<close>) has no \<open>valid\<close> member.
\<close>

theorem validate_upload_empty_name_counterexample:
  "allowed_file [] = Inr False \<and>
   fst (validate_upload ex_env (file_request [] 0) ex_world) =
     jsonify [(''error'', JStr ''No file selected'')] 400 \<and>
   field (fst (validate_upload ex_env (file_request [] 0) ex_world)) ''valid'' = None"
proof -
  have "request_files ex_env (file_request [] 0) = Inr [(''video'', \<lparr>filename = [], stream_size = 0\<rparr>)]"
    by (rule small_request_files) simp
  then have "validate_upload ex_env (file_request [] 0) ex_world =
               (jsonify [(''error'', JStr ''No file selected'')] 400, ex_world)"
    by (simp add: validate_upload_def validate_upload_try_def)
  then show ?thesis
    by (simp add: allowed_file_no_dot field_def jsonify_def)
qed

text \<open>
  C7, amended. For every request that carries a file with a non-empty name whose
  extension (the text after the last dot, lowercased) is not one of mp4, avi, mov, wmv,
  flv, webm, mkv, or which has no dot at all, \<open>validate_upload\<close> answers
  \<open>valid = false\<close> and leaves the world as it was: no call to the host is made and no
  file is written.
\<close>

theorem validate_upload_rejects_extension:
  assumes "map_of (req_files r) ''video'' = Some file"
    and "filename file \<noteq> []"
    and "\<forall>pre ext. filename file = pre @ CHR ''.'' # ext \<and> CHR ''.'' \<notin> set ext
           \<longrightarrow> lower ext \<notin> ALLOWED_EXTENSIONS"
  shows "field (fst (validate_upload ev r w)) ''valid'' = Some (JBool False) \<and>
         calls (snd (validate_upload ev r w)) = calls w \<and>
         snd (validate_upload ev r w) = w"
proof -
  have "\<not> (\<exists>pre ext. filename file = pre @ CHR ''.'' # ext \<and> CHR ''.'' \<notin> set ext
           \<and> lower ext \<in> ALLOWED_EXTENSIONS)"
    using assms(3) by blast
  then have na: "allowed_file (filename file) = Inr False"
    by (simp add: allowed_file_char)
  consider "request_files ev r = Inr (req_files r)" | e where "request_files ev r = Inl e"
    using request_files_cases by blast
  then show ?thesis
  proof cases
    case 1
    then show ?thesis
      using validate_upload_not_allowed [OF 1 assms(1,2) na, of w]
      by (simp add: field_def jsonify_def)
  next
    case 2
    then show ?thesis
      using validate_upload_refused [OF 2, of w]
      by (simp add: field_def jsonify_def)
  qed
qed

theorem validate_upload_rejects_extension_witness:
  "allowed_file ''notes.txt'' = Inr False \<and>
   field (fst (validate_upload ex_env (file_request ''notes.txt'' 10) ex_world)) ''valid''
     = Some (JBool False) \<and>
   calls (snd (validate_upload ex_env (file_request ''notes.txt'' 10) ex_world)) = calls ex_world \<and>
   snd (validate_upload ex_env (file_request ''notes.txt'' 10) ex_world) = ex_world"
proof -
  have a: "allowed_file ''notes.txt'' = Inr False"
    by code_simp
  have f: "map_of (req_files (file_request ''notes.txt'' 10)) ''video''
             = Some \<lparr>filename = ''notes.txt'', stream_size = 10\<rparr>"
    by (simp add: file_request_def)
  have n: "filename \<lparr>filename = ''notes.txt'', stream_size = 10\<rparr> \<noteq> []"
    by simp
  have "\<not> (\<exists>pre ext. ''notes.txt'' = pre @ CHR ''.'' # ext \<and> CHR ''.'' \<notin> set ext
           \<and> lower ext \<in> ALLOWED_EXTENSIONS)"
    using a allowed_file_char [of "''notes.txt''"] by simp
  then have e: "\<forall>pre ext. filename \<lparr>filename = ''notes.txt'', stream_size = 10\<rparr> = pre @ CHR ''.'' # ext
           \<and> CHR ''.'' \<notin> set ext \<longrightarrow> lower ext \<notin> ALLOWED_EXTENSIONS"
    by auto
  show ?thesis
    using a validate_upload_rejects_extension [OF f n e, of ex_env ex_world] by simp
qed

section \<open>The category of a draft\<close>

lemma complete_ex_ai:
  "i \<noteq> 3 \<Longrightarrow> complete (ex_ai c) i p mt temp = Inr ''Sample text''"
  "complete (ex_ai c) 3 p mt temp = Inr (strip c)"
  by (simp_all add: complete_def ex_ai_def first_content_def index_def
      strip_def lstrip_def rstrip_def isspace_def)

lemma generate_metadata_ex:
  "generate_metadata (ex_ai c) ex_metadata_request =
     jsonify [(''title'', JStr ''Sample text''),
              (''description'', JStr ''Sample text''),
              (''tags'', JList (map JStr (parse_tags ''Sample text''))),
              (''category_id'', JStr (validate_category (strip c))),
              (''status'', JStr ''success'')] 200"
  by (simp add: generate_metadata_def generate_metadata_try_def ex_metadata_request_def
      get_default_def complete_ex_ai Let_def)

text \<open>
  C4, as the claim states it, fails: the completion \<open>" 27"\<close> (a space, then 27) is not
  a member of the enumeration as a string, yet the draft carries \<open>category_id = "27"\<close>,
  because the completion is stripped before it is compared.
\<close>

theorem generate_metadata_category_counterexample:
  "'' 27'' \<notin> set valid_categories \<and>
   field (generate_metadata (ex_ai '' 27'') ex_metadata_request) ''category_id'' = Some (JStr ''27'')"
proof -
  have "strip '' 27'' = ''27''"
    by (simp add: strip_def lstrip_def rstrip_def isspace_def)
  then show ?thesis
    by (simp add: generate_metadata_ex field_def jsonify_def validate_category_def valid_categories_def)
qed

text \<open>
  C4, amended. When the first three completions succeed and the category completion,
  once white space is stripped from both its ends, is not one of the strings 1, 2, 10,
  15, 17, 19, 20, 22, 23, 24, 25, 26, 27, 28, \<open>generate_metadata\<close> answers 200 with
  \<open>category_id = "22"\<close>: no error arises from the category.
\<close>

theorem generate_metadata_category_default:
  assumes "req_json r = Some data" and "data \<noteq> []"
    and "get_default data ''text'' [] \<noteq> [] \<or> get_default data ''topic'' [] \<noteq> []"
    and "ctx = make_context (get_default data ''topic'' []) (get_default data ''text'' [])
                 (get_default data ''audience'' ''general'') (get_default data ''style'' ''informative'')"
    and "complete ai 0 (title_prompt ctx) 100 7 = Inr title"
    and "complete ai 1 (description_prompt ctx) 800 7 = Inr description"
    and "complete ai 2 (tags_prompt ctx) 200 5 = Inr tags_text"
    and "ai 3 \<lparr>model = ''gpt-4o-mini'', prompt = category_prompt ctx, max_tokens = 10,
               temperature_tenths = 3\<rparr> = Inr (Some completion # others)"
    and "strip completion \<notin> set valid_categories"
  shows "generate_metadata ai r =
           jsonify [(''title'', JStr title),
                    (''description'', JStr description),
                    (''tags'', JList (map JStr (parse_tags tags_text))),
                    (''category_id'', JStr ''22''),
                    (''status'', JStr ''success'')] 200"
proof -
  have c: "complete ai 3 (category_prompt ctx) 10 3 = Inr (strip completion)"
    using assms(8) by (simp add: complete_def first_content_def index_def)
  have t: "generate_metadata_try ai r =
             Inr (jsonify [(''title'', JStr title),
                    (''description'', JStr description),
                    (''tags'', JList (map JStr (parse_tags tags_text))),
                    (''category_id'', JStr (validate_category (strip completion))),
                    (''status'', JStr ''success'')] 200)"
    using assms(1-3) assms(5-7) [unfolded assms(4)] c [unfolded assms(4)]
    by (auto simp: generate_metadata_try_def Let_def)
  show ?thesis
    using t assms(9) by (simp add: generate_metadata_def validate_category_def)
qed

theorem generate_metadata_category_default_witness:
  "strip ''Education'' \<notin> set valid_categories \<and>
   field (generate_metadata (ex_ai ''Education'') ex_metadata_request) ''category_id'' = Some (JStr ''22'') \<and>
   resp_status (generate_metadata (ex_ai ''Education'') ex_metadata_request) = 200"
proof -
  have s: "strip ''Education'' = ''Education''"
    by (simp add: strip_def lstrip_def rstrip_def isspace_def)
  have v: "strip ''Education'' \<notin> set valid_categories"
    by (simp add: s valid_categories_def)
  have d: "req_json ex_metadata_request = Some [(''topic'', ''Chess'')]" "[(''topic'', ''Chess'')] \<noteq> []"
    "get_default [(''topic'', ''Chess'')] ''text'' [] \<noteq> [] \<or> get_default [(''topic'', ''Chess'')] ''topic'' [] \<noteq> []"
    by (simp_all add: ex_metadata_request_def get_default_def)
  have a: "ex_ai ''Education'' 3 rq = Inr (Some ''Education'' # [])" for rq
    by (simp add: ex_ai_def)
  have "generate_metadata (ex_ai ''Education'') ex_metadata_request =
           jsonify [(''title'', JStr ''Sample text''),
                    (''description'', JStr ''Sample text''),
                    (''tags'', JList (map JStr (parse_tags ''Sample text''))),
                    (''category_id'', JStr ''22''),
                    (''status'', JStr ''success'')] 200"
    using d a v
      generate_metadata_category_default
        [where r = ex_metadata_request and data = "[(''topic'', ''Chess'')]"
           and ai = "ex_ai ''Education''" and completion = "''Education''" and others = "[]"
           and title = "''Sample text''" and description = "''Sample text''"
           and tags_text = "''Sample text''", OF _ _ _ refl]
    by (simp add: complete_ex_ai)
  then show ?thesis
    using v by (simp add: field_def jsonify_def)
qed

section \<open>Pagination\<close>

lemma playlists_loop_pages:
  assumes srv: "\<forall>i<length pages. execute i (request_params (page_token pages i)) = Inr (pages ! i)"
    and more: "\<forall>p\<in>set (butlast pages). truthy (nextPageToken p)"
    and stop: "\<not> truthy (nextPageToken (last pages))"
    and i: "i < length pages"
  shows "playlists_loop execute i (page_token pages i) acc log =
           Some (Inr (acc @ concat (map page_infos (drop i pages))),
                 log @ map (\<lambda>j. PlaylistsList (request_params (page_token pages j))) [i..<length pages])"
  using i
proof (induction "length pages - i" arbitrary: i acc log)
  case 0
  then show ?case by simp
next
  case (Suc n)
  have ex: "execute i (request_params (page_token pages i)) = Inr (pages ! i)"
    using srv Suc.prems by simp
  show ?case
  proof (cases "Suc i = length pages")
    case True
    then have "pages ! i = last pages"
      using Suc.prems by (metis diff_Suc_1 last_conv_nth less_nat_zero_code list.size(3))
    then have "\<not> truthy (nextPageToken (pages ! i))"
      using stop by simp
    moreover have "drop i pages = [pages ! i]"
      using True Suc.prems by (metis Cons_nth_drop_Suc drop_all le_refl)
    moreover have "[i..<length pages] = [i]"
      using True by (metis upt_rec lessI upt_conv_Nil le_refl)
    ultimately show ?thesis
      by (subst playlists_loop.simps) (simp add: ex)
  next
    case False
    then have lt: "Suc i < length pages"
      using Suc.prems by simp
    then have "i < length (butlast pages)"
      by simp
    then have "pages ! i \<in> set (butlast pages)"
      by (metis nth_butlast nth_mem)
    then have t: "truthy (nextPageToken (pages ! i))"
      using more by simp
    have tok: "nextPageToken (pages ! i) = page_token pages (Suc i)"
      by (simp add: page_token_def)
    have n: "n = length pages - Suc i"
      using Suc.hyps(2) by simp
    have d: "drop i pages = pages ! i # drop (Suc i) pages"
      using Suc.prems by (simp add: Cons_nth_drop_Suc)
    have u: "[i..<length pages] = i # [Suc i..<length pages]"
      using Suc.prems by (simp add: upt_rec)
    have "playlists_loop execute i (page_token pages i) acc log =
            playlists_loop execute (Suc i) (page_token pages (Suc i)) (acc @ page_infos (pages ! i))
              (log @ [PlaylistsList (request_params (page_token pages i))])"
      using t by (subst playlists_loop.simps) (simp add: ex tok [symmetric])
    also have "\<dots> = Some (Inr ((acc @ page_infos (pages ! i)) @ concat (map page_infos (drop (Suc i) pages))),
                 (log @ [PlaylistsList (request_params (page_token pages i))]) @
                 map (\<lambda>j. PlaylistsList (request_params (page_token pages j))) [Suc i..<length pages])"
      by (rule Suc.hyps(1) [OF n lt])
    finally show ?thesis
      by (simp add: d u)
  qed
qed

lemma request_params_sent:
  assumes "\<forall>p\<in>set (butlast pages). truthy (nextPageToken p)" and "i < length pages"
  shows "request_params (page_token pages i) =
           \<lparr>part = ''snippet,status'', mine = True, maxResults = 50, pageToken = page_token pages i\<rparr>"
proof (cases i)
  case 0
  then show ?thesis
    by (simp add: request_params_def page_token_def truthy_def)
next
  case (Suc j)
  then have "j < length (butlast pages)"
    using assms(2) by simp
  then have "pages ! j \<in> set (butlast pages)"
    by (metis nth_butlast nth_mem)
  then have "truthy (nextPageToken (pages ! j))"
    using assms(1) by simp
  then show ?thesis
    using Suc by (simp add: request_params_def page_token_def)
qed

lemma entry_id_playlist_info: "entry_id (playlist_info item) = Some (pl_id item)"
  by (simp add: playlist_info_def)

lemma entry_ids_of_pages:
  "map entry_id (concat (map page_infos pages)) = map (\<lambda>item. Some (pl_id item)) (all_items pages)"
  by (induction pages) (simp_all add: all_items_def page_infos_def page_items_def entry_id_playlist_info)

lemma length_infos_of_pages: "length (concat (map page_infos pages)) = length (all_items pages)"
  using arg_cong [OF entry_ids_of_pages, of length, of pages] by simp

lemma ex_service: "get_youtube_service ex_google ex_world = (Inr (Some (Youtube ex_credentials)), ex_world)"
  by (simp add: get_youtube_service_def service_body_def ex_google_def ex_world_def
      ex_credentials_def valid_def do_build_def)

text \<open>
  C2. Let the pages be a non-empty sequence, every page but the last carrying a
  (non-empty) page token and the last one none, and let the host answer the request
  without a page token with the first page and the request carrying the token of a page
  with the page after it. Then \<open>list_playlists\<close> returns, with HTTP 200, one entry per
  item of the pages, and the ids of the entries are the ids of the pages' items
  concatenated in page order, each page's items in their own order; \<open>total_count\<close> is
  their number. It makes exactly one call per page: the first without a page token, each
  later one with the token of the page before, every one with \<open>maxResults = 50\<close>.
\<close>

theorem list_playlists_pagination:
  assumes "get_youtube_service g w = (Inr (Some youtube), w1)"
    and "pages \<noteq> []"
    and "\<forall>i<length pages.
           playlists_list h i
             \<lparr>part = ''snippet,status'', mine = True, maxResults = 50, pageToken = page_token pages i\<rparr>
           = Inr (pages ! i)"
    and "\<forall>p\<in>set (butlast pages). truthy (nextPageToken p)"
    and "\<not> truthy (nextPageToken (last pages))"
  shows "\<exists>resp. list_playlists g h w =
           Some (resp,
                 w1\<lparr>calls := calls w1 @
                        map (\<lambda>i. PlaylistsList
                                   \<lparr>part = ''snippet,status'', mine = True, maxResults = 50,
                                    pageToken = page_token pages i\<rparr>)
                            [0..<length pages]\<rparr>)
         \<and> resp_status resp = 200
         \<and> map entry_id (listed resp) = map (\<lambda>item. Some (pl_id item)) (all_items pages)
         \<and> field resp ''total_count'' = Some (JInt (int (length (all_items pages))))
         \<and> field resp ''status'' = Some (JStr ''success'')"
proof -
  have sent: "request_params (page_token pages i) =
           \<lparr>part = ''snippet,status'', mine = True, maxResults = 50, pageToken = page_token pages i\<rparr>"
    if "i < length pages" for i
    using request_params_sent [OF assms(4) that] .
  have srv: "\<forall>i<length pages. playlists_list h i (request_params (page_token pages i)) = Inr (pages ! i)"
    using assms(3) sent by simp
  have log: "map (\<lambda>j. PlaylistsList (request_params (page_token pages j))) [0..<length pages] =
             map (\<lambda>i. PlaylistsList
                         \<lparr>part = ''snippet,status'', mine = True, maxResults = 50,
                          pageToken = page_token pages i\<rparr>) [0..<length pages]"
    using sent by simp
  have first: "page_token pages 0 = None"
    by (simp add: page_token_def)
  have "0 < length pages"
    using assms(2) by simp
  then have "playlists_loop (playlists_list h) 0 (page_token pages 0) [] (calls w1) =
           Some (Inr ([] @ concat (map page_infos (drop 0 pages))),
                 calls w1 @ map (\<lambda>j. PlaylistsList (request_params (page_token pages j)))
                   [0..<length pages])"
    by (rule playlists_loop_pages
          [where execute = "playlists_list h" and pages = pages, OF srv assms(4) assms(5)])
  then have "playlists_loop (playlists_list h) 0 None [] (calls w1) =
           Some (Inr (concat (map page_infos pages)),
                 calls w1 @ map (\<lambda>i. PlaylistsList
                         \<lparr>part = ''snippet,status'', mine = True, maxResults = 50,
                          pageToken = page_token pages i\<rparr>) [0..<length pages])"
    unfolding first log by simp
  then have "list_playlists g h w =
      Some (jsonify [(''playlists'', JList (concat (map page_infos pages))),
                     (''total_count'', JInt (int (length (concat (map page_infos pages))))),
                     (''status'', JStr ''success'')] 200,
            w1\<lparr>calls := calls w1 @
                   map (\<lambda>i. PlaylistsList
                         \<lparr>part = ''snippet,status'', mine = True, maxResults = 50,
                          pageToken = page_token pages i\<rparr>) [0..<length pages]\<rparr>)"
    using assms(1) by (simp add: list_playlists_def)
  then show ?thesis
    by (simp add: jsonify_def field_def listed_def entry_ids_of_pages length_infos_of_pages)
qed

theorem list_playlists_pagination_witness:
  "playlists_list ex_paging_host 0
     \<lparr>part = ''snippet,status'', mine = True, maxResults = 50, pageToken = None\<rparr> = Inr (ex_pages ! 0) \<and>
   playlists_list ex_paging_host 1
     \<lparr>part = ''snippet,status'', mine = True, maxResults = 50, pageToken = Some ''CAUQAA''\<rparr>
     = Inr (ex_pages ! 1) \<and>
   nextPageToken (ex_pages ! 0) = Some ''CAUQAA'' \<and>
   nextPageToken (ex_pages ! 1) = None \<and>
   map_option (\<lambda>out. map entry_id (listed (fst out)))
     (list_playlists ex_google ex_paging_host ex_world) = Some [Some ''PL1'', Some ''PL2''] \<and>
   map_option (\<lambda>out. field (fst out) ''total_count'')
     (list_playlists ex_google ex_paging_host ex_world) = Some (Some (JInt 2)) \<and>
   map_option (\<lambda>out. calls (snd out)) (list_playlists ex_google ex_paging_host ex_world) =
     Some [PlaylistsList \<lparr>part = ''snippet,status'', mine = True, maxResults = 50, pageToken = None\<rparr>,
           PlaylistsList \<lparr>part = ''snippet,status'', mine = True, maxResults = 50,
                          pageToken = Some ''CAUQAA''\<rparr>]"
proof -
  have ne: "ex_pages \<noteq> []"
    by (simp add: ex_pages_def)
  have len: "length ex_pages = 2"
    by (simp add: ex_pages_def)
  have tok: "page_token ex_pages 0 = None" "page_token ex_pages (Suc 0) = Some ''CAUQAA''"
    by (simp_all add: page_token_def ex_pages_def)
  have host: "playlists_list ex_paging_host i rq =
      (if pageToken rq = None then Inr (ex_pages ! 0)
       else if pageToken rq = Some ''CAUQAA'' then Inr (ex_pages ! 1)
       else Inl (HttpError ''invalidPageToken'' ''HttpError 400''))" for i rq
    by (simp add: ex_paging_host_def)
  have srv: "\<forall>i<length ex_pages.
      playlists_list ex_paging_host i
        \<lparr>part = ''snippet,status'', mine = True, maxResults = 50, pageToken = page_token ex_pages i\<rparr>
      = Inr (ex_pages ! i)"
    unfolding len by (simp add: less_Suc_eq numeral_2_eq_2 host tok)
  have more: "\<forall>p\<in>set (butlast ex_pages). truthy (nextPageToken p)"
    by (simp add: ex_pages_def truthy_def)
  have stop: "\<not> truthy (nextPageToken (last ex_pages))"
    by (simp add: ex_pages_def truthy_def)
  have up: "[0..<length ex_pages] = [0, Suc 0]"
    unfolding len by (simp add: upt_rec)
  have ids: "map (\<lambda>item. Some (pl_id item)) (all_items ex_pages) = [Some ''PL1'', Some ''PL2'']"
    by (simp add: all_items_def page_items_def ex_pages_def ex_playlist_def)
  have n: "length (all_items ex_pages) = 2"
    by (simp add: all_items_def page_items_def ex_pages_def)
  have pg: "nextPageToken (ex_pages ! 0) = Some ''CAUQAA''" "nextPageToken (ex_pages ! 1) = None"
    "nextPageToken (ex_pages ! Suc 0) = None"
    by (simp_all add: ex_pages_def)
  obtain resp where r: "list_playlists ex_google ex_paging_host ex_world =
      Some (resp, ex_world\<lparr>calls := calls ex_world @
              map (\<lambda>i. PlaylistsList
                         \<lparr>part = ''snippet,status'', mine = True, maxResults = 50,
                          pageToken = page_token ex_pages i\<rparr>) [0..<length ex_pages]\<rparr>)"
    and i: "map entry_id (listed resp) = map (\<lambda>item. Some (pl_id item)) (all_items ex_pages)"
    and c: "field resp ''total_count'' = Some (JInt (int (length (all_items ex_pages))))"
    using list_playlists_pagination [OF ex_service ne srv more stop] by blast
  have "calls ex_world = []"
    by (simp add: ex_world_def)
  then show ?thesis
    using r i c by (simp add: up tok ids n host pg)
qed

section \<open>Upload\<close>

lemma upload_loop_completes_from:
  assumes "\<forall>i<k. \<exists>st. chunk i = Inr (st, None)" "chunk k = Inr (st, Some response)" "i \<le> k"
  shows "upload_loop chunk i log = Some (Inr response, log @ replicate (Suc k - i) NextChunk)"
  using assms(3)
proof (induction "k - i" arbitrary: i log)
  case 0
  then have "i = k" by simp
  then show ?case by (subst upload_loop.simps) (simp add: assms(2))
next
  case (Suc n)
  then have lt: "i < k" by simp
  then obtain st' where c: "chunk i = Inr (st', None)"
    using assms(1) by blast
  have n: "n = k - Suc i"
    using Suc.hyps(2) by simp
  have r: "Suc k - i = Suc (Suc k - Suc i)"
    using lt by simp
  have "upload_loop chunk i log = upload_loop chunk (Suc i) (log @ [NextChunk])"
    by (subst upload_loop.simps) (simp add: c)
  also have "\<dots> = Some (Inr response, (log @ [NextChunk]) @ replicate (Suc k - Suc i) NextChunk)"
    using lt by (intro Suc.hyps(1) [OF n]) simp
  finally show ?case
    by (simp add: r)
qed

lemma service_keeps_files:
  "get_youtube_service g w = (res, w1) \<Longrightarrow> tmp w1 = tmp w"
  by (auto simp: get_youtube_service_def service_body_def refresh_and_save_def
      split: option.splits sum.splits prod.splits if_splits)

lemma upload_prepare_saved:
  assumes "upload_prepare g ev r w = Inr (job, d, n, w3)"
  shows "tmp w d = None \<and> tmp w3 = (tmp w)(d \<mapsto> {n}) \<and> job = read_form (req_form r)"
proof -
  obtain res w1 where s: "get_youtube_service g w = (res, w1)"
    by (cases "get_youtube_service g w")
  have t: "tmp w1 = tmp w"
    using service_keeps_files [OF s] .
  show ?thesis
    using assms t unfolding upload_prepare_def s
    by (auto simp: mkdtemp_def file_save_def split: option.splits sum.splits bool.splits if_splits)
qed

lemma add_to_playlist_keeps_files: "add_to_playlist h p v w = (r, w') \<Longrightarrow> tmp w' = tmp w"
  by (auto simp: add_to_playlist_def split: option.splits exn.splits if_splits)

lemma after_upload_keeps_files: "after_upload h job resp w = (res, w') \<Longrightarrow> tmp w' = tmp w"
  by (auto simp: after_upload_def split: option.splits prod.splits dest: add_to_playlist_keeps_files)

lemma upload_try_keeps_files:
  assumes "upload_try h job d n w = Some (res, w')"
  shows "tmp w' = tmp w"
  using assms
  by (auto simp: upload_try_def split: option.splits sum.splits prod.splits
      dest: after_upload_keeps_files)

lemma cleanup_removes:
  assumes "tmp w = m(d \<mapsto> {n})"
  shows "tmp (cleanup d n w) = m(d := None)"
  using assms by (simp add: cleanup_def os_remove_def os_rmdir_def)

lemma upload_try_swallows:
  assumes "job_playlist_id job = Some pid" and "pid \<noteq> []"
    and "media_file_upload h d n = None"
    and "videos_insert h (make_body job) = None"
    and "\<forall>i<k. \<exists>st. next_chunk h i = Inr (st, None)"
    and "next_chunk h k = Inr (st, Some response)"
    and "map_of response ''id'' = Some video_id"
    and "playlist_items_insert h pid video_id = Some (HttpError c s)"
  shows "\<exists>w'. upload_try h job d n w = Some (Inr (success_response video_id (job_title job)), w')"
proof -
  have "upload_loop (next_chunk h) 0 (calls w @ [VideosInsert (make_body job) d n]) =
          Some (Inr response, (calls w @ [VideosInsert (make_body job) d n]) @ replicate (Suc k - 0) NextChunk)"
    by (rule upload_loop_completes_from [OF assms(5) assms(6)]) simp
  then show ?thesis
    using assms(1-4) assms(7,8)
    by (simp add: upload_try_def after_upload_def add_to_playlist_def)
qed

lemma ex_env_sel:
  "mkdtemp_name ex_env = ''/tmp/tmpk3''" "secure_filename ex_env name = name"
  by (simp_all add: ex_env_def)

lemma ex_prepare:
  "upload_prepare ex_google ex_env ex_request ex_world =
     Inr (read_form (req_form ex_request), ''/tmp/tmpk3'', ''clip.mp4'',
          ex_world\<lparr>tmp := [''/tmp/tmpk3'' \<mapsto> {''clip.mp4''}]\<rparr>)"
proof -
  have f: "request_files ex_env ex_request = Inr [(''video'', \<lparr>filename = ''clip.mp4'', stream_size = 2048\<rparr>)]"
    by (simp add: request_files_def ex_env_def app_MAX_CONTENT_LENGTH_def ex_request_def)
  have m: "mkdtemp ''/tmp/tmpk3'' ex_world =
             Inr (''/tmp/tmpk3'', ex_world\<lparr>tmp := [''/tmp/tmpk3'' \<mapsto> {}]\<rparr>)"
    by (simp add: mkdtemp_def ex_world_def)
  have v: "file_save ''/tmp/tmpk3'' ''clip.mp4'' (ex_world\<lparr>tmp := [''/tmp/tmpk3'' \<mapsto> {}]\<rparr>) =
             Inr (ex_world\<lparr>tmp := [''/tmp/tmpk3'' \<mapsto> {''clip.mp4''}]\<rparr>)"
    by (simp add: file_save_def ex_world_def)
  show ?thesis
    by (simp add: upload_prepare_def f allowed_clip ex_service ex_env_sel m v)
qed

lemma ex_job:
  "job_title (read_form (req_form ex_request)) = ''Demo''"
  "job_playlist_id (read_form (req_form ex_request)) = Some ''PL7''"
  "make_body (read_form (req_form ex_request)) =
     \<lparr>snippet_title = ''Demo'', snippet_description = [], snippet_tags = [],
      snippet_categoryId = ''22'', status_privacyStatus = ''private''\<rparr>"
  by (simp_all add: read_form_def ex_request_def get_default_def truthy_def make_body_def)

lemma ex_host_calls:
  "media_file_upload (ex_host e) d n = None"
  "videos_insert (ex_host e) b = None"
  "next_chunk (ex_host e) 0 = Inr (Some 50, None)"
  "next_chunk (ex_host e) 1 = Inr (None, Some [(''id'', ''v9'')])"
  "playlist_items_insert (ex_host e) p v = Some e"
  "next_chunk (ex_host e) (Suc 0) = Inr (None, Some [(''id'', ''v9'')])"
  by (simp_all add: ex_host_def)

lemma ex_upload_loop:
  "upload_loop (next_chunk (ex_host e)) 0 log = Some (Inr [(''id'', ''v9'')], log @ [NextChunk, NextChunk])"
proof -
  have "upload_loop (next_chunk (ex_host e)) 0 log =
          Some (Inr [(''id'', ''v9'')], log @ replicate (Suc 1 - 0) NextChunk)"
    by (rule upload_loop_completes_from [where st = None]) (simp_all add: ex_host_calls)
  then show ?thesis
    by (simp add: numeral_2_eq_2)
qed

lemma ex_upload_timeout:
  "upload_video ex_google (ex_host (OtherError ''timed out'')) ex_env ex_request ex_world =
     Some (jsonify [(''error'', JStr ''timed out''), (''status'', JStr ''error'')] 500,
           ex_world\<lparr>calls :=
             [VideosInsert \<lparr>snippet_title = ''Demo'', snippet_description = [], snippet_tags = [],
                            snippet_categoryId = ''22'', status_privacyStatus = ''private''\<rparr>
                ''/tmp/tmpk3'' ''clip.mp4'',
              NextChunk, NextChunk, PlaylistItemsInsert ''PL7'' ''v9'']\<rparr>)"
  apply (simp add: upload_video_def ex_prepare upload_try_def ex_upload_loop ex_host_calls ex_job
      after_upload_def add_to_playlist_def)
  apply (simp add: cleanup_def os_remove_def os_rmdir_def ex_world_def upload_error_response_def)
  done

text \<open>
  C3, as the claim states it, fails: the handler catches only \<open>HttpError\<close> around the
  playlist insert. When the upload has completed and the insert fails with another
  exception (here a time-out), the handler answers 500 with an error and no
  \<open>video_id\<close>.
\<close>

theorem upload_video_playlist_failure_counterexample:
  "next_chunk (ex_host (OtherError ''timed out'')) 1 = Inr (None, Some [(''id'', ''v9'')]) \<and>
   job_playlist_id (read_form (req_form ex_request)) = Some ''PL7'' \<and>
   playlist_items_insert (ex_host (OtherError ''timed out'')) ''PL7'' ''v9'' = Some (OtherError ''timed out'') \<and>
   map_option fst (upload_video ex_google (ex_host (OtherError ''timed out'')) ex_env ex_request ex_world) =
     Some (jsonify [(''error'', JStr ''timed out''), (''status'', JStr ''error'')] 500) \<and>
   field (jsonify [(''error'', JStr ''timed out''), (''status'', JStr ''error'')] 500) ''video_id'' = None"
  by (simp add: ex_host_calls ex_job ex_upload_timeout field_def jsonify_def)

text \<open>
  C3, amended. For every \<open>upload_video\<close> request that names a playlist: if the file was
  saved, the resumable upload completes with a response carrying the video's id, and
  the playlist insert then fails with an \<open>HttpError\<close>, the handler still answers 200
  with the success response, which carries \<open>video_id\<close> and \<open>video_url\<close>.
\<close>

theorem upload_video_swallows_playlist_http_error:
  assumes "upload_prepare g ev r w = Inr (job, temp_dir, name, w3)"
    and "job_playlist_id job = Some pid" and "pid \<noteq> []"
    and "media_file_upload h temp_dir name = None"
    and "videos_insert h (make_body job) = None"
    and "\<forall>i<k. \<exists>st. next_chunk h i = Inr (st, None)"
    and "next_chunk h k = Inr (st, Some response)"
    and "map_of response ''id'' = Some video_id"
    and "playlist_items_insert h pid video_id = Some (HttpError c s)"
  shows "map_option fst (upload_video g h ev r w) = Some (success_response video_id (job_title job)) \<and>
         resp_status (success_response video_id (job_title job)) = 200 \<and>
         field (success_response video_id (job_title job)) ''video_id'' = Some (JStr video_id) \<and>
         field (success_response video_id (job_title job)) ''video_url''
           = Some (JStr (''https://www.youtube.com/watch?v='' @ video_id))"
proof -
  obtain w4 where "upload_try h job temp_dir name w3 =
      Some (Inr (success_response video_id (job_title job)), w4)"
    using upload_try_swallows [OF assms(2-9)] by blast
  then have "map_option fst (upload_video g h ev r w) = Some (success_response video_id (job_title job))"
    using assms(1) by (simp add: upload_video_def)
  then show ?thesis
    by (simp add: success_response_def field_def jsonify_def)
qed

theorem upload_video_swallows_playlist_http_error_witness:
  "job_playlist_id (read_form (req_form ex_request)) = Some ''PL7'' \<and>
   next_chunk (ex_host (HttpError ''playlistNotFound'' ''HttpError 404'')) 0 = Inr (Some 50, None) \<and>
   next_chunk (ex_host (HttpError ''playlistNotFound'' ''HttpError 404'')) 1 = Inr (None, Some [(''id'', ''v9'')]) \<and>
   playlist_items_insert (ex_host (HttpError ''playlistNotFound'' ''HttpError 404'')) ''PL7'' ''v9''
     = Some (HttpError ''playlistNotFound'' ''HttpError 404'') \<and>
   map_option fst (upload_video ex_google (ex_host (HttpError ''playlistNotFound'' ''HttpError 404''))
      ex_env ex_request ex_world) = Some (success_response ''v9'' ''Demo'')"
proof -
  have k: "\<forall>i<1. \<exists>st. next_chunk (ex_host (HttpError ''playlistNotFound'' ''HttpError 404'')) i = Inr (st, None)"
    by (simp add: ex_host_calls)
  have i: "map_of [(''id'', ''v9'')] ''id'' = Some ''v9''" and p: "''PL7'' \<noteq> []"
    by simp_all
  show ?thesis
    using upload_video_swallows_playlist_http_error
      [OF ex_prepare ex_job(2) p ex_host_calls(1) ex_host_calls(2) k ex_host_calls(4) i ex_host_calls(5)]
    by (simp add: ex_host_calls ex_job)
qed

text \<open>
  C8. Whenever \<open>upload_video\<close> has saved the uploaded file in its temporary directory
  and then returns, whatever the response (success, host error or any other failure
  of the upload), the temporary directory and the file in it are gone: the temporary
  directories are again what they were before the request.
\<close>

theorem upload_video_removes_temp_file:
  assumes "upload_prepare g ev r w = Inr (job, temp_dir, name, w3)"
    and "upload_video g h ev r w = Some (resp, w')"
  shows "tmp w3 temp_dir = Some {name} \<and> tmp w' temp_dir = None \<and> tmp w' = tmp w"
proof -
  from assms(1) have fresh: "tmp w temp_dir = None" and saved: "tmp w3 = (tmp w)(temp_dir \<mapsto> {name})"
    using upload_prepare_saved by blast+
  from assms obtain res w4 where t: "upload_try h job temp_dir name w3 = Some (res, w4)"
    and w': "w' = cleanup temp_dir name w4"
    by (auto simp: upload_video_def split: option.splits sum.splits prod.splits)
  have "tmp w4 = (tmp w)(temp_dir \<mapsto> {name})"
    using upload_try_keeps_files [OF t] saved by simp
  then have "tmp (cleanup temp_dir name w4) = (tmp w)(temp_dir := None)"
    by (rule cleanup_removes)
  then show ?thesis
    using fresh saved w' by auto
qed

theorem upload_video_removes_temp_file_witness:
  "upload_prepare ex_google ex_env ex_request ex_world =
     Inr (read_form (req_form ex_request), ''/tmp/tmpk3'', ''clip.mp4'',
          ex_world\<lparr>tmp := [''/tmp/tmpk3'' \<mapsto> {''clip.mp4''}]\<rparr>) \<and>
   map_option (resp_status \<circ> fst)
     (upload_video ex_google (ex_host (OtherError ''timed out'')) ex_env ex_request ex_world) = Some 500 \<and>
   map_option (\<lambda>out. tmp (snd out) ''/tmp/tmpk3'')
     (upload_video ex_google (ex_host (OtherError ''timed out'')) ex_env ex_request ex_world) = Some None \<and>
   map_option (tmp \<circ> snd)
     (upload_video ex_google (ex_host (OtherError ''timed out'')) ex_env ex_request ex_world)
     = Some (tmp ex_world)"
  using upload_video_removes_temp_file [OF ex_prepare ex_upload_timeout]
  by (simp add: ex_prepare ex_upload_timeout jsonify_def)

end
